theory Spec2Isabelle
  imports Main
begin

section \<open>Values\<close>

text \<open>
  The backend (\<^verbatim>\<open>src/backend/index.js\<close>) is a single Node.js file: an MQTT message
  handler and a set of HTTP routes that share one global \<^verbatim>\<open>systemState\<close> object, one
  connectivity flag and one database table, \<^verbatim>\<open>reparto\<close>. The model passes all of them
  explicitly, and every handler runs from its first statement to its last without another
  handler in between. JavaScript values are typed as the code uses them: a nullable integer
  column or an optional numeric field is an \<open>int option\<close>, a nullable text is a
  \<open>string option\<close>, and a property that holds values of several types is a \<open>jsval\<close>.
  Numbers are integers (the columns are \<^verbatim>\<open>INTEGER\<close>), so \<^verbatim>\<open>parseInt\<close> of a number and
  the conversion of a number to text are exact. A database statement fails only where the
  code's own call can reject (\<^verbatim>\<open>oneOrNone\<close> on several rows); the connection itself is
  taken to work.
\<close>

datatype jsval = Undefined | Null | Num int | Str string

datatype js_error =
    ReferenceError string
  | SyntaxError
  | QueryResultError

text \<open>Truthiness, and \<^verbatim>\<open>x || d\<close>: the default is taken for null, zero and the empty string.\<close>

definition truthy_num :: "int option \<Rightarrow> bool" where
  "truthy_num x = (case x of None \<Rightarrow> False | Some n \<Rightarrow> n \<noteq> 0)"

definition truthy_str :: "string option \<Rightarrow> bool" where
  "truthy_str x = (case x of None \<Rightarrow> False | Some s \<Rightarrow> s \<noteq> [])"

definition or_num :: "int option \<Rightarrow> int \<Rightarrow> int" where
  "or_num x d = (case x of None \<Rightarrow> d | Some n \<Rightarrow> if n = 0 then d else n)"

definition or_str :: "string option \<Rightarrow> string \<Rightarrow> string" where
  "or_str x d = (case x of None \<Rightarrow> d | Some s \<Rightarrow> if s = [] then d else s)"

text \<open>A number or a nullable text inside a template literal.\<close>

fun string_of_nat :: "nat \<Rightarrow> string" where
  "string_of_nat n =
     (if n < 10 then [''0123456789'' ! n]
      else string_of_nat (n div 10) @ [''0123456789'' ! (n mod 10)])"

declare string_of_nat.simps [simp del]

definition string_of_int :: "int \<Rightarrow> string" where
  "string_of_int i = (if i < 0 then ''-'' @ string_of_nat (nat (- i)) else string_of_nat (nat i))"

definition string_of_text :: "string option \<Rightarrow> string" where
  "string_of_text x = (case x of None \<Rightarrow> ''null'' | Some s \<Rightarrow> s)"

subsection \<open>\<^verbatim>\<open>parseInt\<close> of a message text\<close>

text \<open>
  \<^verbatim>\<open>parseInt(messageStr)\<close>: leading white space is skipped, then an optional sign, then
  an optional \<^verbatim>\<open>0x\<close> prefix that selects radix 16, then the longest run of digits of
  the radix. No digit gives \<^verbatim>\<open>NaN\<close>, here \<open>None\<close>. White space is the ASCII part of
  the language's white space.
\<close>

definition js_whitespace :: "char \<Rightarrow> bool" where
  "js_whitespace c = (c \<in> set [CHR 0x09, CHR 0x0A, CHR 0x0B, CHR 0x0C, CHR 0x0D, CHR 0x20])"

definition digit_value :: "char \<Rightarrow> nat option" where
  "digit_value c =
     (let n = (of_char c :: nat) in
      if 48 \<le> n \<and> n \<le> 57 then Some (n - 48)
      else if 97 \<le> n \<and> n \<le> 122 then Some (n - 87)
      else if 65 \<le> n \<and> n \<le> 90 then Some (n - 55)
      else None)"

definition is_digit_of :: "nat \<Rightarrow> char \<Rightarrow> bool" where
  "is_digit_of radix c = (case digit_value c of None \<Rightarrow> False | Some d \<Rightarrow> d < radix)"

definition digits_value :: "nat \<Rightarrow> string \<Rightarrow> nat" where
  "digits_value radix ds =
     foldl (\<lambda>a c. case digit_value c of None \<Rightarrow> a | Some d \<Rightarrow> a * radix + d) 0 ds"

definition parseInt :: "string \<Rightarrow> int option" where
  "parseInt s =
     (let s1 = dropWhile js_whitespace s;
          neg = (case s1 of [] \<Rightarrow> False | c # _ \<Rightarrow> c = CHR ''-'');
          s2 = (case s1 of [] \<Rightarrow> [] | c # cs \<Rightarrow> if c = CHR ''-'' \<or> c = CHR ''+'' then cs else s1);
          hex = (case s2 of a # b # _ \<Rightarrow> a = CHR ''0'' \<and> (b = CHR ''x'' \<or> b = CHR ''X'') | _ \<Rightarrow> False);
          radix = (if hex then 16 else 10);
          s3 = (if hex then drop 2 s2 else s2);
          ds = takeWhile (is_digit_of radix) s3
      in if ds = [] then None
         else Some ((if neg then - 1 else 1) * int (digits_value radix ds)))"

subsection \<open>\<^verbatim>\<open>JSON.stringify\<close> of an object of strings\<close>

definition JSON_escape :: "char \<Rightarrow> string" where
  "JSON_escape c =
     (let n = (of_char c :: nat) in
      if c = CHR 0x22 then [CHR 0x5C, CHR 0x22]
      else if c = CHR 0x5C then [CHR 0x5C, CHR 0x5C]
      else if c = CHR 0x08 then [CHR 0x5C, CHR ''b'']
      else if c = CHR 0x0C then [CHR 0x5C, CHR ''f'']
      else if c = CHR 0x0A then [CHR 0x5C, CHR ''n'']
      else if c = CHR 0x0D then [CHR 0x5C, CHR ''r'']
      else if c = CHR 0x09 then [CHR 0x5C, CHR ''t'']
      else if n < 32 then
        [CHR 0x5C, CHR ''u'', CHR ''0'', CHR ''0'',
         ''0123456789abcdef'' ! (n div 16), ''0123456789abcdef'' ! (n mod 16)]
      else [c])"

definition JSON_quote :: "string \<Rightarrow> string" where
  "JSON_quote s = [CHR 0x22] @ concat (map JSON_escape s) @ [CHR 0x22]"

fun JSON_members :: "(string \<times> string) list \<Rightarrow> string" where
  "JSON_members [] = []"
| "JSON_members [(k, v)] = JSON_quote k @ '':'' @ JSON_quote v"
| "JSON_members ((k, v) # kvs) = JSON_quote k @ '':'' @ JSON_quote v @ '','' @ JSON_members kvs"

definition JSON_stringify :: "(string \<times> string) list \<Rightarrow> string" where
  "JSON_stringify obj = ''{'' @ JSON_members obj @ ''}''"

section \<open>Data model\<close>

text \<open>
  A row of \<^verbatim>\<open>reparto\<close>, with the columns the routes read and write. \<^verbatim>\<open>id\<close> is the key
  the routes select by; \<^verbatim>\<open>NOW()\<close> is a natural number supplied by the caller.
\<close>

record reparto_row =
  r_id :: int
  r_almacen :: "string option"
  r_lectura :: "string option"
  r_location :: "int option"
  r_cantidad :: "int option"
  r_timestamp_recepcion :: "nat option"

datatype op_type = entrada | salida_particulares | salida_centro

datatype op_phase = picking_from_storage

text \<open>
  The object stored in \<^verbatim>\<open>systemState.currentOperation\<close>. No object literal of the file
  has a \<^verbatim>\<open>mode\<close> property; the emergency handler reads one, so the field is here and
  every operation the routes create has it undefined (\<open>None\<close>).
\<close>

record operation =
  op_type :: op_type
  position :: int
  cantidad :: int
  productId :: jsval
  almacen :: "string option"
  phase :: op_phase
  agvTargetPosition :: int
  mode :: "string option"

record agv =
  ubicacion :: jsval
  estado :: jsval

record systemState =
  emergencyStop :: bool
  conveyor1Status :: string
  conveyor2Status :: string
  infrared1Status :: "int option"
  infrared2Status :: "int option"
  agvStatus :: agv
  pendingBoxes :: int
  currentOperation :: "operation option"

text \<open>
  What the console receives, for the lines the behaviour is read from: the simulation
  notices, the refusal of a publish, and \<^verbatim>\<open>console.error\<close>. A label is the text of
  the line without its leading pictogram.
\<close>

datatype log_entry =
    LogSimulation string
  | LogPublishSimulated string string string
  | LogCannotPublish string
  | LogError string
  | LogCaught string js_error

text \<open>
  The process: the global state, the connectivity flag, the messages handed to
  \<^verbatim>\<open>mqttClient.publish\<close> (topic and text, in order; all with qos 1), the table and the
  console.
\<close>

record backend =
  state :: systemState
  mqttConnected :: bool
  transmitted :: "(string \<times> string) list"
  reparto :: "reparto_row list"
  console :: "log_entry list"

definition initial_systemState :: systemState where
  "initial_systemState =
     \<lparr> emergencyStop = False, conveyor1Status = ''Parado'', conveyor2Status = ''Parado'',
       infrared1Status = Some 0, infrared2Status = Some 0,
       agvStatus = \<lparr> ubicacion = Num 0, estado = Str ''drop'' \<rparr>,
       pendingBoxes = 0, currentOperation = None \<rparr>"

definition log :: "log_entry \<Rightarrow> backend \<Rightarrow> backend" where
  "log e w = w\<lparr> console := console w @ [e] \<rparr>"

section \<open>Responses and requests\<close>

datatype json = JNull | JBool bool | JNum int | JStr string

datatype body = JsonBody "(string \<times> json) list" | TextBody string

record response =
  status :: nat
  body :: body

definition json_field :: "response \<Rightarrow> string \<Rightarrow> json option" where
  "json_field res k = (case body res of JsonBody kvs \<Rightarrow> map_of kvs k | TextBody _ \<Rightarrow> None)"

definition error_response :: "nat \<Rightarrow> string \<Rightarrow> response" where
  "error_response code msg = \<lparr> status = code, body = JsonBody [(''error'', JStr msg)] \<rparr>"

text \<open>The fields the routes read from \<^verbatim>\<open>req.body\<close>; \<open>None\<close> is an absent field.\<close>

record request =
  body_id :: "int option"
  body_password :: "string option"

section \<open>The ledger statements\<close>

text \<open>
  \<^verbatim>\<open>db.oneOrNone\<close> rejects when the query yields more than one row. A comparison with
  a null parameter selects no row.
\<close>

definition oneOrNone :: "'a list \<Rightarrow> js_error + 'a option" where
  "oneOrNone rows =
     (case rows of [] \<Rightarrow> Inr None | [r] \<Rightarrow> Inr (Some r) | _ \<Rightarrow> Inl QueryResultError)"

definition select_by_id :: "int option \<Rightarrow> reparto_row list \<Rightarrow> reparto_row list" where
  "select_by_id i rows = filter (\<lambda>r. i = Some (r_id r)) rows"

definition select_by_lectura :: "string option \<Rightarrow> reparto_row list \<Rightarrow> reparto_row list" where
  "select_by_lectura l rows = filter (\<lambda>r. l \<noteq> None \<and> r_lectura r = l) rows"

text \<open>
  \<^verbatim>\<open>SELECT location FROM reparto WHERE location IS NOT NULL AND almacen = $1\<close>, each row
  then read with \<^verbatim>\<open>parseInt(row.location)\<close>.
\<close>

definition usedLocations :: "string option \<Rightarrow> reparto_row list \<Rightarrow> int list" where
  "usedLocations a rows =
     List.map_filter (\<lambda>r. if a \<noteq> None \<and> r_almacen r = a then r_location r else None) rows"

definition usedLocationSet :: "string option \<Rightarrow> reparto_row list \<Rightarrow> int set" where
  "usedLocationSet a rows = set (usedLocations a rows)"

definition update_location_by_id ::
  "int \<Rightarrow> nat \<Rightarrow> int option \<Rightarrow> reparto_row list \<Rightarrow> reparto_row list" where
  "update_location_by_id p now i rows =
     map (\<lambda>r. if i = Some (r_id r)
               then r\<lparr> r_location := Some p, r_timestamp_recepcion := Some now \<rparr> else r) rows"

definition update_location_by_lectura ::
  "int \<Rightarrow> nat \<Rightarrow> string option \<Rightarrow> reparto_row list \<Rightarrow> reparto_row list" where
  "update_location_by_lectura p now l rows =
     map (\<lambda>r. if l \<noteq> None \<and> r_lectura r = l
               then r\<lparr> r_location := Some p, r_timestamp_recepcion := Some now \<rparr> else r) rows"

definition delete_by_id :: "int option \<Rightarrow> reparto_row list \<Rightarrow> reparto_row list" where
  "delete_by_id i rows = filter (\<lambda>r. i \<noteq> Some (r_id r)) rows"

section \<open>The slot scan\<close>

text \<open>
  \<^verbatim>\<open>for (let i = 1; i <= 5; i++) if (!usedLocationSet.has(i)) { availablePosition = i; break; }\<close>
  from the value \<open>i\<close> of the loop variable; \<open>None\<close> is \<^verbatim>\<open>availablePosition === null\<close>.
\<close>

function scan_positions :: "int \<Rightarrow> int set \<Rightarrow> int option" where
  "scan_positions i used =
     (if i \<le> 5 then (if i \<notin> used then Some i else scan_positions (i + 1) used) else None)"
  by pat_completeness auto
termination
  by (relation "measure (\<lambda>(i, used). nat (6 - i))") auto

declare scan_positions.simps [simp del]

definition availablePosition :: "int set \<Rightarrow> int option" where
  "availablePosition used = scan_positions 1 used"

section \<open>The device gateway\<close>

text \<open>
  \<^verbatim>\<open>publishMqttMessage(topic, message, almacen)\<close>. Every caller in the file passes two
  arguments, so \<open>almacen\<close> is \<open>None\<close> there.
\<close>

definition publishMqttMessage ::
  "string \<Rightarrow> string \<Rightarrow> string option \<Rightarrow> backend \<Rightarrow> bool \<times> backend" where
  "publishMqttMessage topic message alm w =
     (if truthy_str alm \<and> alm \<noteq> Some ''Vera''
      then (True, log (LogPublishSimulated (string_of_text alm) topic message) w)
      else if \<not> mqttConnected w then (False, log (LogCannotPublish topic) w)
      else (True, w\<lparr> transmitted := transmitted w @ [(topic, message)] \<rparr>))"

definition stop_conveyor_1 :: "string \<times> string" where
  "stop_conveyor_1 = (''PR2A1/acciones/conveyor_1'', JSON_stringify [(''accion'', ''parada'')])"

definition stop_conveyor_2 :: "string \<times> string" where
  "stop_conveyor_2 = (''PR2A1/acciones/conveyor_2'', JSON_stringify [(''accion'', ''parada'')])"

definition stop_paletizaje :: "string \<Rightarrow> string \<times> string" where
  "stop_paletizaje modo =
     (''PR2A1/acciones/paletizaje'', JSON_stringify [(''accion'', ''parada''), (''modo'', modo)])"

definition stop_cobot :: "string \<times> string" where
  "stop_cobot = (''PR2A1/cobot/recogida'', JSON_stringify [(''accion'', ''parada'')])"

section \<open>The emergency stop\<close>

text \<open>
  \<^verbatim>\<open>systemState.currentOperation?.almacen || "Vera"\<close> and
  \<^verbatim>\<open>systemState.currentOperation?.mode || "paletizar"\<close>.
\<close>

definition emergency_almacen :: "systemState \<Rightarrow> string" where
  "emergency_almacen st =
     (case currentOperation st of None \<Rightarrow> ''Vera'' | Some operation \<Rightarrow> or_str (almacen operation) ''Vera'')"

definition emergency_modo :: "systemState \<Rightarrow> string" where
  "emergency_modo st =
     (case currentOperation st of None \<Rightarrow> ''paletizar''
      | Some operation \<Rightarrow> or_str (mode operation) ''paletizar'')"

definition publish :: "string \<times> string \<Rightarrow> backend \<Rightarrow> backend" where
  "publish tm w = snd (publishMqttMessage (fst tm) (snd tm) None w)"

definition handleEmergencyStop :: "backend \<Rightarrow> backend" where
  "handleEmergencyStop w =
     (let alm = emergency_almacen (state w);
          w1 = (if alm = ''Vera''
                then publish stop_cobot
                       (publish (stop_paletizaje (emergency_modo (state w)))
                          (publish stop_conveyor_2 (publish stop_conveyor_1 w)))
                else log (LogSimulation alm) w)
      in w1\<lparr> state := (state w1)\<lparr> currentOperation := None, pendingBoxes := 0 \<rparr> \<rparr>)"

section \<open>The HTTP routes\<close>

definition directriz :: string where
  "directriz = ''PR2A1/acciones/directriz''"

definition directriz_entrada :: "int \<Rightarrow> int \<Rightarrow> string" where
  \<open>directriz_entrada c p =
     ''{"accion": "entrada", "cantidad": "'' @ string_of_int c @
     ''", "posicion": "'' @ string_of_int p @ ''"}''\<close>

definition directriz_salida :: "string \<Rightarrow> int \<Rightarrow> int \<Rightarrow> string" where
  \<open>directriz_salida accion p c =
     ''{"accion": "'' @ accion @ ''", "posicion": "'' @ string_of_int p @
     ''", "cantidad": "'' @ string_of_int c @ ''"}''\<close>

definition set_operation :: "operation \<Rightarrow> backend \<Rightarrow> backend" where
  "set_operation operation w = w\<lparr> state := (state w)\<lparr> currentOperation := Some operation \<rparr> \<rparr>"

definition set_pendingBoxes :: "int \<Rightarrow> backend \<Rightarrow> backend" where
  "set_pendingBoxes n w = w\<lparr> state := (state w)\<lparr> pendingBoxes := n \<rparr> \<rparr>"

text \<open>
  \<^verbatim>\<open>app.post("/api/qr-entrada")\<close>. The route has no call of \<^verbatim>\<open>verifyPwd\<close>. The
  \<^verbatim>\<open>catch\<close> block answers 500; in the model only \<^verbatim>\<open>oneOrNone\<close> can throw.
\<close>

definition api_qr_entrada :: "nat \<Rightarrow> request \<Rightarrow> backend \<Rightarrow> response \<times> backend" where
  "api_qr_entrada now req w =
     (case body_id req of
        None \<Rightarrow>
          (error_response 400 ''Missing id in QR code'', log (LogError ''Missing id in QR code'') w)
      | Some i \<Rightarrow>
          if i = 0 then
            (error_response 400 ''Missing id in QR code'', log (LogError ''Missing id in QR code'') w)
          else
            (case oneOrNone (select_by_id (Some i) (reparto w)) of
               Inl e \<Rightarrow>
                 (error_response 500 ''Error processing QR code entry'',
                  log (LogCaught ''Error processing QR code entry:'' e) w)
             | Inr None \<Rightarrow>
                 (error_response 404 (''Product with code '' @ string_of_int i @ '' not found''),
                  log (LogError (''Product with code '' @ string_of_int i @ '' not found'')) w)
             | Inr (Some product) \<Rightarrow>
                 (let alm = r_almacen product;
                      cant = or_num (r_cantidad product) 12
                  in case availablePosition (usedLocationSet alm (reparto w)) of
                       None \<Rightarrow>
                         (error_response 400
                            (''No available positions in warehouse '' @ string_of_text alm),
                          log (LogError
                            (''No available positions in warehouse '' @ string_of_text alm)) w)
                     | Some p \<Rightarrow>
                         (let w1 = set_operation
                                \<lparr> op_type = entrada, position = p, cantidad = cant,
                                  productId = Num i, almacen = alm, phase = picking_from_storage,
                                  agvTargetPosition = p, mode = None \<rparr> w;
                              w2 = set_pendingBoxes cant w1;
                              w3 = (if alm = Some ''Vera''
                                    then publish (directriz, directriz_entrada cant p) w2
                                    else log (LogSimulation (string_of_text alm)) w2);
                              w4 = w3\<lparr> reparto :=
                                     update_location_by_id p now (Some i) (reparto w3) \<rparr>
                          in (\<lparr> status = 200,
                                body = JsonBody
                                  [(''success'', JBool True), (''location'', JNum p),
                                   (''cantidad'', JNum cant),
                                   (''message'', JStr (''Product assigned to location '' @
                                      string_of_int p))] \<rparr>, w4)))))"

text \<open>\<^verbatim>\<open>verifyPwd\<close>: strict equality of the body's password and \<^verbatim>\<open>process.env.ADMIN_PWD\<close>.\<close>

definition verifyPwd :: "string option \<Rightarrow> request \<Rightarrow> bool" where
  "verifyPwd ADMIN_PWD req = (body_password req = ADMIN_PWD)"

definition forbidden :: response where
  "forbidden = \<lparr> status = 403, body = TextBody ''Forbidden'' \<rparr>"

definition lectura_value :: "string option \<Rightarrow> jsval" where
  "lectura_value l = (case l of None \<Rightarrow> Null | Some s \<Rightarrow> Str s)"

definition almacen_json :: "string option \<Rightarrow> json" where
  "almacen_json a = (case a of None \<Rightarrow> JNull | Some s \<Rightarrow> JStr s)"

definition salida_response :: "int \<Rightarrow> int \<Rightarrow> string option \<Rightarrow> response" where
  "salida_response loc boxCount alm =
     \<lparr> status = 200,
       body = JsonBody
         [(''success'', JBool True), (''posicion'', JNum loc), (''cantidad'', JNum boxCount),
          (''almacen'', almacen_json alm), (''simulation'', JBool (alm \<noteq> Some ''Vera''))] \<rparr>"

text \<open>\<^verbatim>\<open>app.post("/api/salida-particulares")\<close>.\<close>

definition api_salida_particulares ::
  "string option \<Rightarrow> request \<Rightarrow> backend \<Rightarrow> response \<times> backend" where
  "api_salida_particulares ADMIN_PWD req w =
     (if \<not> verifyPwd ADMIN_PWD req then (forbidden, w)
      else
        case oneOrNone (select_by_id (body_id req) (reparto w)) of
          Inl e \<Rightarrow>
            (error_response 500 ''Error processing salida particulares'',
             log (LogCaught ''Error processing salida particulares:'' e) w)
        | Inr None \<Rightarrow> (error_response 404 ''Reparto record not found'', w)
        | Inr (Some rep) \<Rightarrow>
            (case r_location rep of
               None \<Rightarrow>
                 (error_response 400 ''This product is not stored in a warehouse location'', w)
             | Some loc \<Rightarrow>
                 if loc = 0 then
                   (error_response 400 ''This product is not stored in a warehouse location'', w)
                 else
                   (let alm = r_almacen rep;
                        boxCount = or_num (r_cantidad rep) 10;
                        w1 = set_operation
                          \<lparr> op_type = salida_particulares, position = loc, cantidad = boxCount,
                            productId = lectura_value (r_lectura rep), almacen = alm,
                            phase = picking_from_storage, agvTargetPosition = loc,
                            mode = None \<rparr> w;
                        w2 = set_pendingBoxes boxCount w1;
                        w3 = (if alm = Some ''Vera''
                              then publish
                                (directriz, directriz_salida ''salida_particulares'' loc boxCount) w2
                              else log (LogSimulation (string_of_text alm)) w2);
                        w4 = w3\<lparr> reparto := delete_by_id (body_id req) (reparto w3) \<rparr>
                    in (salida_response loc boxCount alm, w4))))"

text \<open>\<^verbatim>\<open>app.post("/api/salida-centro")\<close>: no assignment to \<^verbatim>\<open>pendingBoxes\<close>.\<close>

definition api_salida_centro ::
  "string option \<Rightarrow> request \<Rightarrow> backend \<Rightarrow> response \<times> backend" where
  "api_salida_centro ADMIN_PWD req w =
     (if \<not> verifyPwd ADMIN_PWD req then (forbidden, w)
      else
        case oneOrNone (select_by_id (body_id req) (reparto w)) of
          Inl e \<Rightarrow>
            (error_response 500 ''Error processing salida centro'',
             log (LogCaught ''Error processing salida centro:'' e) w)
        | Inr None \<Rightarrow> (error_response 404 ''Reparto record not found'', w)
        | Inr (Some rep) \<Rightarrow>
            (case r_location rep of
               None \<Rightarrow>
                 (error_response 400 ''This product is not stored in a warehouse location'', w)
             | Some loc \<Rightarrow>
                 if loc = 0 then
                   (error_response 400 ''This product is not stored in a warehouse location'', w)
                 else
                   (let alm = r_almacen rep;
                        boxCount = or_num (r_cantidad rep) 10;
                        w1 = set_operation
                          \<lparr> op_type = salida_centro, position = loc, cantidad = boxCount,
                            productId = lectura_value (r_lectura rep), almacen = alm,
                            phase = picking_from_storage, agvTargetPosition = loc,
                            mode = None \<rparr> w;
                        w3 = (if alm = Some ''Vera''
                              then publish
                                (directriz, directriz_salida ''salida_centro'' loc boxCount) w1
                              else log (LogSimulation (string_of_text alm)) w1);
                        w4 = w3\<lparr> reparto := delete_by_id (body_id req) (reparto w3) \<rparr>
                    in (salida_response loc boxCount alm, w4))))"

text \<open>\<^verbatim>\<open>app.post("/api/reset-emergency")\<close>.\<close>

definition api_reset_emergency ::
  "string option \<Rightarrow> request \<Rightarrow> backend \<Rightarrow> response \<times> backend" where
  "api_reset_emergency ADMIN_PWD req w =
     (if \<not> verifyPwd ADMIN_PWD req then (forbidden, w)
      else
        (\<lparr> status = 200,
           body = JsonBody
             [(''success'', JBool True), (''message'', JStr ''Emergency stop reset'')] \<rparr>,
         w\<lparr> state := (state w)\<lparr> emergencyStop := False \<rparr> \<rparr>))"

section \<open>The MQTT message handler\<close>

text \<open>
  The payload of a QR notice after \<^verbatim>\<open>JSON.parse\<close>: either the fields themselves, or an
  object whose \<^verbatim>\<open>'QR Code'\<close> property holds a JSON text, parsed a second time
  (\<open>Inl\<close> when that parse throws).
\<close>

record qr_fields =
  qr_id :: "int option"
  qr_cantidad :: "int option"
  qr_lectura :: "string option"

datatype qr_data = QRWrapped "js_error + qr_fields" | QRPlain qr_fields

definition qr_parsedData :: "qr_data \<Rightarrow> js_error + qr_fields" where
  "qr_parsedData qrData = (case qrData of QRWrapped r \<Rightarrow> r | QRPlain f \<Rightarrow> Inr f)"

text \<open>\<^verbatim>\<open>id || lectura\<close>.\<close>

definition id_or_lectura :: "int option \<Rightarrow> string option \<Rightarrow> jsval" where
  "id_or_lectura i l =
     (case i of
        Some n \<Rightarrow> if n \<noteq> 0 then Num n else (case l of None \<Rightarrow> Undefined | Some s \<Rightarrow> Str s)
      | None \<Rightarrow> (case l of None \<Rightarrow> Undefined | Some s \<Rightarrow> Str s))"

definition string_of_jsval :: "jsval \<Rightarrow> string" where
  "string_of_jsval v =
     (case v of Undefined \<Rightarrow> ''undefined'' | Null \<Rightarrow> ''null'' | Num n \<Rightarrow> string_of_int n
      | Str s \<Rightarrow> s)"

text \<open>\<^verbatim>\<open>async function handleQrCodeEntry(qrData)\<close>; it answers nobody, every exit is a log line.\<close>

definition handleQrCodeEntry :: "nat \<Rightarrow> qr_data \<Rightarrow> backend \<Rightarrow> backend" where
  "handleQrCodeEntry now qrData w =
     (case qr_parsedData qrData of
        Inl e \<Rightarrow>
          log (LogCaught (''Failed to parse '' @ [CHR 0x27] @ ''QR Code'' @ [CHR 0x27] @
                 '' content:'') e) w
      | Inr parsedData \<Rightarrow>
          (let i = qr_id parsedData;
               lectura = qr_lectura parsedData;
               cant = or_num (qr_cantidad parsedData) 12
           in if \<not> truthy_num i \<and> \<not> truthy_str lectura then
                log (LogError ''Missing id or lectura in QR code'') w
              else
                case (if truthy_num i then oneOrNone (select_by_id i (reparto w))
                      else oneOrNone (select_by_lectura lectura (reparto w))) of
                  Inl e \<Rightarrow> log (LogCaught ''Error processing QR code entry:'' e) w
                | Inr None \<Rightarrow>
                    log (LogError (''Product not found with '' @
                      (if truthy_num i then ''ID '' @ string_of_jsval (id_or_lectura i lectura)
                       else ''lectura '' @ string_of_text lectura))) w
                | Inr (Some product) \<Rightarrow>
                    (let alm = r_almacen product
                     in case availablePosition (usedLocationSet alm (reparto w)) of
                          None \<Rightarrow>
                            log (LogError
                              (''No available positions in warehouse '' @ string_of_text alm)) w
                        | Some p \<Rightarrow>
                            (let w1 = set_operation
                                   \<lparr> op_type = entrada, position = p, cantidad = cant,
                                     productId = id_or_lectura i lectura, almacen = alm,
                                     phase = picking_from_storage, agvTargetPosition = p,
                                     mode = None \<rparr> w;
                                 w2 = set_pendingBoxes cant w1;
                                 w3 = (if alm = Some ''Vera''
                                       then publish (directriz, directriz_entrada cant p) w2
                                       else log (LogSimulation (string_of_text alm)) w2)
                             in w3\<lparr> reparto :=
                                  (if truthy_num i
                                   then update_location_by_id p now i (reparto w3)
                                   else update_location_by_lectura p now lectura (reparto w3)) \<rparr>))))"

text \<open>
  The file's function declarations. A call of any other name throws a
  \<^verbatim>\<open>ReferenceError\<close> when it is reached.
\<close>

definition declared_functions :: "string list" where
  "declared_functions =
     [''handleEmergencyStop'', ''handleQrCodeEntry'', ''publishMqttMessage'', ''verifyPwd'',
      ''generateQRCode'', ''cleanup'']"

definition call_of :: "string \<Rightarrow> js_error option" where
  "call_of f = (if f \<in> set declared_functions then None else Some (ReferenceError f))"

text \<open>
  \<^verbatim>\<open>JSON.parse\<close> of the two structured topics is a parameter of the handler: the AGV
  status with its two properties read (\<open>Inl\<close> when the parse or the reads throw), and the
  QR notice.
\<close>

record decoders =
  parse_agv :: "string \<Rightarrow> js_error + agv"
  parse_qr :: "string \<Rightarrow> js_error + qr_data"

text \<open>
  The \<^verbatim>\<open>try\<close> block of the AGV case: the state written so far, and the error that left
  the block, if any.
\<close>

definition agv_try :: "decoders \<Rightarrow> string \<Rightarrow> backend \<Rightarrow> backend \<times> js_error option" where
  "agv_try dec messageStr w =
     (case parse_agv dec messageStr of
        Inl e \<Rightarrow> (w, Some e)
      | Inr a \<Rightarrow>
          (let w1 = w\<lparr> state := (state w)\<lparr> agvStatus :=
                      \<lparr> ubicacion = ubicacion a, estado = estado a \<rparr> \<rparr> \<rparr>
           in case currentOperation (state w1) of
                None \<Rightarrow> (w1, None)
              | Some operation \<Rightarrow>
                  if Num (agvTargetPosition operation) = ubicacion a
                  then (w1, call_of ''handleAgvReachedPosition'')
                  else (w1, None)))"

text \<open>
  \<^verbatim>\<open>mqttClient.on('message', (topic, message) => ...)\<close>. The second component is the
  exception that leaves the callback uncaught, if any.
\<close>

definition on_message ::
  "decoders \<Rightarrow> nat \<Rightarrow> string \<Rightarrow> string \<Rightarrow> backend \<Rightarrow> backend \<times> js_error option" where
  "on_message dec now topic messageStr w =
     (if topic = ''PR2A1/avisos/parada_emergencia'' then
        (handleEmergencyStop (w\<lparr> state := (state w)\<lparr> emergencyStop := True \<rparr> \<rparr>), None)
      else if topic = ''PR2A1/status/conveyor_1'' then
        (w\<lparr> state := (state w)\<lparr> conveyor1Status := messageStr \<rparr> \<rparr>, None)
      else if topic = ''PR2A1/status/conveyor_2'' then
        (w\<lparr> state := (state w)\<lparr> conveyor2Status := messageStr \<rparr> \<rparr>, None)
      else if topic = ''PR2A1/status/infrarrojos_1'' then
        (w\<lparr> state := (state w)\<lparr> infrared1Status := parseInt messageStr \<rparr> \<rparr>,
         call_of ''handleInfrared1StatusChange'')
      else if topic = ''PR2A1/status/infrarrojos_2'' then
        (w\<lparr> state := (state w)\<lparr> infrared2Status := parseInt messageStr \<rparr> \<rparr>,
         call_of ''handleInfrared2StatusChange'')
      else if topic = ''PR2A1/status/agv'' then
        (case agv_try dec messageStr w of
           (w1, None) \<Rightarrow> (w1, None)
         | (w1, Some e) \<Rightarrow> (log (LogCaught ''Error parsing AGV status:'' e) w1, None))
      else if topic = ''PR2A1/avisos/QR'' then
        (case parse_qr dec messageStr of
           Inl e \<Rightarrow> (log (LogCaught ''Error parsing QR code data:'' e) w, None)
         | Inr qrData \<Rightarrow> (handleQrCodeEntry now qrData w, None))
      else (w, None))"

section \<open>Example ledgers and requests\<close>

definition row42 :: reparto_row where
  "row42 = \<lparr> r_id = 42, r_almacen = Some ''Vera'', r_lectura = Some ''8410001'',
     r_location = None, r_cantidad = Some 12, r_timestamp_recepcion = None \<rparr>"

definition stored :: "int \<Rightarrow> string \<Rightarrow> int \<Rightarrow> reparto_row" where
  "stored i site loc = \<lparr> r_id = i, r_almacen = Some site, r_lectura = Some ''8410002'',
     r_location = Some loc, r_cantidad = Some 10, r_timestamp_recepcion = Some 0 \<rparr>"

definition received :: "int \<Rightarrow> string \<Rightarrow> reparto_row" where
  "received i site = \<lparr> r_id = i, r_almacen = Some site, r_lectura = Some ''8410003'',
     r_location = None, r_cantidad = Some 6, r_timestamp_recepcion = None \<rparr>"

definition backend_of :: "bool \<Rightarrow> reparto_row list \<Rightarrow> backend" where
  "backend_of connected rows =
     \<lparr> state = initial_systemState, mqttConnected = connected, transmitted = [],
       reparto = rows, console = [] \<rparr>"

definition request_of :: "int \<Rightarrow> string option \<Rightarrow> request" where
  "request_of i pw = \<lparr> body_id = Some i, body_password = pw \<rparr>"

definition three_stored :: "reparto_row list" where
  "three_stored = [stored 1 ''Vera'' 1, stored 2 ''Vera'' 2, stored 3 ''Vera'' 4, row42]"

definition five_stored :: "reparto_row list" where
  "five_stored =
     [stored 1 ''Vera'' 1, stored 2 ''Vera'' 2, stored 3 ''Vera'' 3, stored 4 ''Vera'' 4,
      stored 5 ''Vera'' 5, row42]"

definition qr42 :: qr_data where
  "qr42 = QRPlain \<lparr> qr_id = Some 42, qr_cantidad = Some 12, qr_lectura = Some ''8410001'' \<rparr>"

definition operation_at :: "string option \<Rightarrow> operation" where
  "operation_at site =
     \<lparr> op_type = entrada, position = 2, cantidad = 6, productId = Num 9, almacen = site,
       phase = picking_from_storage, agvTargetPosition = 2, mode = None \<rparr>"

definition busy_backend :: "bool \<Rightarrow> string option \<Rightarrow> reparto_row list \<Rightarrow> backend" where
  "busy_backend connected site rows =
     \<lparr> state = initial_systemState
         \<lparr> emergencyStop := True, pendingBoxes := 6,
           currentOperation := Some (operation_at site) \<rparr>,
       mqttConnected = connected, transmitted = [], reparto = rows, console = [] \<rparr>"

definition example_decoders :: decoders where
  \<open>example_decoders =
     \<lparr> parse_agv = (\<lambda>s. if s = ''{"ubicacion":2,"estado":"carry"}''
                         then Inr \<lparr> ubicacion = Num 2, estado = Str ''carry'' \<rparr>
                         else Inl SyntaxError),
       parse_qr = (\<lambda>s. Inl SyntaxError) \<rparr>\<close>

section \<open>Frame lemmas\<close>

lemma log_fields [simp]:
  "state (log e w) = state w" "reparto (log e w) = reparto w"
  "transmitted (log e w) = transmitted w" "mqttConnected (log e w) = mqttConnected w"
  "console (log e w) = console w @ [e]"
  by (simp_all add: log_def)

lemma publish_fields [simp]:
  "state (publish tm w) = state w" "reparto (publish tm w) = reparto w"
  "mqttConnected (publish tm w) = mqttConnected w"
  "transmitted (publish tm w) = (if mqttConnected w then transmitted w @ [tm] else transmitted w)"
  "console (publish tm w) = (if mqttConnected w then console w else console w @ [LogCannotPublish (fst tm)])"
  by (simp_all add: publish_def publishMqttMessage_def truthy_str_def)

lemma set_operation_fields [simp]:
  "state (set_operation operation w) = (state w)\<lparr> currentOperation := Some operation \<rparr>"
  "reparto (set_operation operation w) = reparto w"
  "transmitted (set_operation operation w) = transmitted w"
  "mqttConnected (set_operation operation w) = mqttConnected w"
  "console (set_operation operation w) = console w"
  by (simp_all add: set_operation_def)

lemma set_pendingBoxes_fields [simp]:
  "state (set_pendingBoxes n w) = (state w)\<lparr> pendingBoxes := n \<rparr>"
  "reparto (set_pendingBoxes n w) = reparto w"
  "transmitted (set_pendingBoxes n w) = transmitted w"
  "mqttConnected (set_pendingBoxes n w) = mqttConnected w"
  "console (set_pendingBoxes n w) = console w"
  by (simp_all add: set_pendingBoxes_def)

lemma scan_positions_Some:
  "scan_positions i used = Some p \<Longrightarrow> i \<le> p \<and> p \<le> 5 \<and> p \<notin> used \<and> (\<forall>j. i \<le> j \<and> j < p \<longrightarrow> j \<in> used)"
proof (induction i used rule: scan_positions.induct)
  case (1 i used)
  show ?case
  proof (cases "i \<le> 5 \<and> i \<in> used")
    case True
    with "1.prems" have "scan_positions (i + 1) used = Some p"
      by (subst (asm) scan_positions.simps) simp
    with "1.IH" True have IH: "i + 1 \<le> p \<and> p \<le> 5 \<and> p \<notin> used \<and> (\<forall>j. i + 1 \<le> j \<and> j < p \<longrightarrow> j \<in> used)"
      by simp
    have "j \<in> used" if "i \<le> j" "j < p" for j
    proof (cases "j = i")
      case True with \<open>i \<le> 5 \<and> i \<in> used\<close> show ?thesis by simp
    next
      case False with that have "i + 1 \<le> j" by simp
      with IH that show ?thesis by simp
    qed
    with IH show ?thesis by simp
  next
    case False
    with "1.prems" show ?thesis
      by (subst (asm) scan_positions.simps) (auto split: if_splits)
  qed
qed


lemma scan_positions_None:
  "scan_positions i used = None \<Longrightarrow> (\<forall>j. i \<le> j \<and> j \<le> 5 \<longrightarrow> j \<in> used)"
proof (induction i used rule: scan_positions.induct)
  case (1 i used)
  show ?case
  proof (cases "i \<le> 5")
    case True
    from "1.prems" True have in_used: "i \<in> used"
      by (subst (asm) scan_positions.simps) (simp split: if_splits)
    from "1.prems" True in_used have rest: "scan_positions (i + 1) used = None"
      by (subst (asm) scan_positions.simps) simp
    with "1.IH" True in_used have IH: "\<forall>j. i + 1 \<le> j \<and> j \<le> 5 \<longrightarrow> j \<in> used"
      by simp
    have "j \<in> used" if "i \<le> j" "j \<le> 5" for j
    proof (cases "j = i")
      case True with in_used show ?thesis by simp
    next
      case False with that have "i + 1 \<le> j" by simp
      with IH that show ?thesis by simp
    qed
    then show ?thesis by simp
  next
    case False
    then show ?thesis by auto
  qed
qed

lemma availablePosition_lowest:
  "availablePosition used = (if {1..5} \<subseteq> used then None else Some (Min ({1..5} - used)))"
proof (cases "availablePosition used")
  case None
  then have "\<forall>j. 1 \<le> j \<and> j \<le> 5 \<longrightarrow> j \<in> used"
    using scan_positions_None [of 1 used] by (simp add: availablePosition_def)
  then have "{1..5} \<subseteq> used" by auto
  with None show ?thesis by simp
next
  case (Some p)
  then have p: "1 \<le> p \<and> p \<le> 5 \<and> p \<notin> used \<and> (\<forall>j. 1 \<le> j \<and> j < p \<longrightarrow> j \<in> used)"
    using scan_positions_Some [of 1 used p] by (simp add: availablePosition_def)
  then have mem: "p \<in> {1..5} - used" by simp
  have "Min ({1..5} - used) = p"
  proof (rule Min_eqI)
    show "finite ({1..5} - used)" by simp
    show "p \<in> {1..5} - used" by (rule mem)
    fix y assume y: "y \<in> {1..5} - used"
    show "p \<le> y"
    proof (rule ccontr)
      assume "\<not> p \<le> y"
      then have "y < p" by simp
      moreover from y have "1 \<le> y" by simp
      ultimately have "y \<in> used" using p by blast
      with y show False by simp
    qed
  qed
  moreover from mem have "\<not> {1..5} \<subseteq> used" by auto
  ultimately show ?thesis using Some by simp
qed

lemma qr_entrada_slot:
  assumes "body_id req = Some i" and "i \<noteq> 0"
    and "select_by_id (Some i) (reparto w) = [product]"
  shows "(let used = usedLocationSet (r_almacen product) (reparto w);
              res = fst (api_qr_entrada now req w);
              w' = snd (api_qr_entrada now req w)
          in if {1..5} \<subseteq> used
             then res = error_response 400
                    (''No available positions in warehouse '' @ string_of_text (r_almacen product)) \<and>
                  state w' = state w \<and> reparto w' = reparto w \<and> transmitted w' = transmitted w
             else status res = 200 \<and>
                  json_field res ''location'' = Some (JNum (Min ({1..5} - used))) \<and>
                  map_option position (currentOperation (state w')) = Some (Min ({1..5} - used)) \<and>
                  reparto w' = update_location_by_id (Min ({1..5} - used)) now (Some i) (reparto w))"
  using assms
  by (simp add: api_qr_entrada_def oneOrNone_def Let_def availablePosition_lowest json_field_def
      error_response_def)

lemma handleQrCodeEntry_slot:
  assumes "qr_parsedData qrData = Inr f"
    and "truthy_num (qr_id f) \<or> truthy_str (qr_lectura f)"
    and "(if truthy_num (qr_id f) then select_by_id (qr_id f) (reparto w)
          else select_by_lectura (qr_lectura f) (reparto w)) = [product]"
  shows "(let used = usedLocationSet (r_almacen product) (reparto w);
              w' = handleQrCodeEntry now qrData w
          in if {1..5} \<subseteq> used
             then state w' = state w \<and> reparto w' = reparto w \<and> transmitted w' = transmitted w \<and>
                  console w' = console w @
                    [LogError (''No available positions in warehouse '' @
                       string_of_text (r_almacen product))]
             else map_option position (currentOperation (state w')) = Some (Min ({1..5} - used)) \<and>
                  reparto w' =
                    (if truthy_num (qr_id f)
                     then update_location_by_id (Min ({1..5} - used)) now (qr_id f) (reparto w)
                     else update_location_by_lectura (Min ({1..5} - used)) now (qr_lectura f)
                            (reparto w)))"
proof (cases "truthy_num (qr_id f)")
  case True
  with assms show ?thesis
    by (simp add: handleQrCodeEntry_def oneOrNone_def Let_def availablePosition_lowest)
next
  case False
  with assms show ?thesis
    by (simp add: handleQrCodeEntry_def oneOrNone_def Let_def availablePosition_lowest)
qed

section \<open>The routes, case by case\<close>

lemma handleEmergencyStop_state:
  "state (handleEmergencyStop w) = (state w)\<lparr> currentOperation := None, pendingBoxes := 0 \<rparr>"
  by (simp add: handleEmergencyStop_def Let_def)

lemma salida_particulares_cases:
  assumes "verifyPwd ADMIN_PWD req"
  shows "select_by_id (body_id req) (reparto w) = [] \<Longrightarrow>
           api_salida_particulares ADMIN_PWD req w =
             (error_response 404 ''Reparto record not found'', w)"
    and "select_by_id (body_id req) (reparto w) = [rep] \<Longrightarrow> r_location rep = None \<Longrightarrow>
           api_salida_particulares ADMIN_PWD req w =
             (error_response 400 ''This product is not stored in a warehouse location'', w)"
  using assms by (simp_all add: api_salida_particulares_def oneOrNone_def)

lemma salida_centro_cases:
  assumes "verifyPwd ADMIN_PWD req"
  shows "select_by_id (body_id req) (reparto w) = [] \<Longrightarrow>
           api_salida_centro ADMIN_PWD req w =
             (error_response 404 ''Reparto record not found'', w)"
    and "select_by_id (body_id req) (reparto w) = [rep] \<Longrightarrow> r_location rep = None \<Longrightarrow>
           api_salida_centro ADMIN_PWD req w =
             (error_response 400 ''This product is not stored in a warehouse location'', w)"
  using assms by (simp_all add: api_salida_centro_def oneOrNone_def)

lemma oneOrNone_shape:
  obtains "xs = []" | x where "xs = [x]" | x y zs where "xs = x # y # zs"
proof (cases xs)
  case Nil
  then show ?thesis using that(1) by simp
next
  case (Cons x ys)
  then show ?thesis using that(2,3) by (cases ys) simp_all
qed

lemma salida_centro_success:
  assumes "status (fst (api_salida_centro ADMIN_PWD req w)) = 200"
  shows "\<exists>rep loc. select_by_id (body_id req) (reparto w) = [rep] \<and> r_location rep = Some loc \<and>
           loc \<noteq> 0 \<and> verifyPwd ADMIN_PWD req \<and>
           fst (api_salida_centro ADMIN_PWD req w) =
             salida_response loc (or_num (r_cantidad rep) 10) (r_almacen rep) \<and>
           state (snd (api_salida_centro ADMIN_PWD req w)) =
             (state w)\<lparr> currentOperation := Some
                \<lparr> op_type = salida_centro, position = loc,
                  cantidad = or_num (r_cantidad rep) 10,
                  productId = lectura_value (r_lectura rep), almacen = r_almacen rep,
                  phase = picking_from_storage, agvTargetPosition = loc, mode = None \<rparr> \<rparr> \<and>
           transmitted (snd (api_salida_centro ADMIN_PWD req w)) =
             (if r_almacen rep = Some ''Vera'' \<and> mqttConnected w
              then transmitted w @
                [(directriz, directriz_salida ''salida_centro'' loc (or_num (r_cantidad rep) 10))]
              else transmitted w) \<and>
           reparto (snd (api_salida_centro ADMIN_PWD req w)) =
             delete_by_id (body_id req) (reparto w) \<and>
           console (snd (api_salida_centro ADMIN_PWD req w)) =
             (if r_almacen rep = Some ''Vera''
              then (if mqttConnected w then console w
                    else console w @ [LogCannotPublish directriz])
              else console w @ [LogSimulation (string_of_text (r_almacen rep))])"
proof -
  let ?sel = "select_by_id (body_id req) (reparto w)"
  from assms have auth: "verifyPwd ADMIN_PWD req"
    by (cases "verifyPwd ADMIN_PWD req") (simp_all add: api_salida_centro_def forbidden_def)
  from assms auth obtain rep where sel: "?sel = [rep]"
    by (cases ?sel rule: oneOrNone_shape)
      (simp_all add: api_salida_centro_def oneOrNone_def error_response_def split: list.splits)
  from assms auth sel obtain loc where loc: "r_location rep = Some loc"
    by (cases "r_location rep") (simp_all add: api_salida_centro_def oneOrNone_def error_response_def)
  from assms auth sel loc have nz: "loc \<noteq> 0"
    by (cases "loc = 0") (simp_all add: api_salida_centro_def oneOrNone_def error_response_def)
  from auth sel loc nz show ?thesis
    by (simp add: api_salida_centro_def oneOrNone_def Let_def)
qed

lemma salida_particulares_success:
  assumes "status (fst (api_salida_particulares ADMIN_PWD req w)) = 200"
  shows "\<exists>rep loc. select_by_id (body_id req) (reparto w) = [rep] \<and> r_location rep = Some loc \<and>
           loc \<noteq> 0 \<and> verifyPwd ADMIN_PWD req \<and>
           fst (api_salida_particulares ADMIN_PWD req w) =
             salida_response loc (or_num (r_cantidad rep) 10) (r_almacen rep) \<and>
           state (snd (api_salida_particulares ADMIN_PWD req w)) =
             (state w)\<lparr> currentOperation := Some
                \<lparr> op_type = salida_particulares, position = loc,
                  cantidad = or_num (r_cantidad rep) 10,
                  productId = lectura_value (r_lectura rep), almacen = r_almacen rep,
                  phase = picking_from_storage, agvTargetPosition = loc, mode = None \<rparr>,
                pendingBoxes := or_num (r_cantidad rep) 10 \<rparr> \<and>
           transmitted (snd (api_salida_particulares ADMIN_PWD req w)) =
             (if r_almacen rep = Some ''Vera'' \<and> mqttConnected w
              then transmitted w @
                [(directriz,
                  directriz_salida ''salida_particulares'' loc (or_num (r_cantidad rep) 10))]
              else transmitted w) \<and>
           reparto (snd (api_salida_particulares ADMIN_PWD req w)) =
             delete_by_id (body_id req) (reparto w) \<and>
           console (snd (api_salida_particulares ADMIN_PWD req w)) =
             (if r_almacen rep = Some ''Vera''
              then (if mqttConnected w then console w
                    else console w @ [LogCannotPublish directriz])
              else console w @ [LogSimulation (string_of_text (r_almacen rep))])"
proof -
  let ?sel = "select_by_id (body_id req) (reparto w)"
  from assms have auth: "verifyPwd ADMIN_PWD req"
    by (cases "verifyPwd ADMIN_PWD req") (simp_all add: api_salida_particulares_def forbidden_def)
  from assms auth obtain rep where sel: "?sel = [rep]"
    by (cases ?sel rule: oneOrNone_shape)
      (simp_all add: api_salida_particulares_def oneOrNone_def error_response_def split: list.splits)
  from assms auth sel obtain loc where loc: "r_location rep = Some loc"
    by (cases "r_location rep") (simp_all add: api_salida_particulares_def oneOrNone_def error_response_def)
  from assms auth sel loc have nz: "loc \<noteq> 0"
    by (cases "loc = 0") (simp_all add: api_salida_particulares_def oneOrNone_def error_response_def)
  from auth sel loc nz show ?thesis
    by (simp add: api_salida_particulares_def oneOrNone_def Let_def)
qed

lemma qr_entrada_found:
  assumes "body_id req = Some i" and "i \<noteq> 0"
    and "select_by_id (Some i) (reparto w) = [product]"
    and "availablePosition (usedLocationSet (r_almacen product) (reparto w)) = Some p"
  shows "fst (api_qr_entrada now req w) =
           \<lparr> status = 200,
             body = JsonBody
               [(''success'', JBool True), (''location'', JNum p),
                (''cantidad'', JNum (or_num (r_cantidad product) 12)),
                (''message'', JStr (''Product assigned to location '' @ string_of_int p))] \<rparr>"
    and "state (snd (api_qr_entrada now req w)) =
           (state w)\<lparr> currentOperation := Some
               \<lparr> op_type = entrada, position = p, cantidad = or_num (r_cantidad product) 12,
                 productId = Num i, almacen = r_almacen product, phase = picking_from_storage,
                 agvTargetPosition = p, mode = None \<rparr>,
             pendingBoxes := or_num (r_cantidad product) 12 \<rparr>"
    and "transmitted (snd (api_qr_entrada now req w)) =
           (if r_almacen product = Some ''Vera'' \<and> mqttConnected w
            then transmitted w @
              [(directriz, directriz_entrada (or_num (r_cantidad product) 12) p)]
            else transmitted w)"
    and "console (snd (api_qr_entrada now req w)) =
           (if r_almacen product = Some ''Vera''
            then (if mqttConnected w then console w
                  else console w @ [LogCannotPublish directriz])
            else console w @ [LogSimulation (string_of_text (r_almacen product))])"
    and "reparto (snd (api_qr_entrada now req w)) =
           update_location_by_id p now (Some i) (reparto w)"
  using assms by (simp_all add: api_qr_entrada_def oneOrNone_def Let_def)

lemma qr_entrada_success:
  assumes "body_id req = Some i" and "i \<noteq> 0"
    and "select_by_id (Some i) (reparto w) = [product]"
    and "status (fst (api_qr_entrada now req w)) = 200"
  shows "\<exists>p. availablePosition (usedLocationSet (r_almacen product) (reparto w)) = Some p"
  using assms
  by (cases "availablePosition (usedLocationSet (r_almacen product) (reparto w))")
    (simp_all add: api_qr_entrada_def oneOrNone_def Let_def error_response_def)

lemma usedLocationSet_empty:
  assumes "\<forall>r\<in>set rows. r_almacen r = a \<longrightarrow> r_location r = None"
  shows "usedLocationSet a rows = {}"
  using assms by (induction rows) (simp_all add: usedLocationSet_def usedLocations_def List.map_filter_def)

lemma availablePosition_empty: "availablePosition {} = Some 1"
  by (simp add: availablePosition_def scan_positions.simps)

lemma select_after_update:
  "select_by_id (Some i) (update_location_by_id p now (Some i) rows) =
     map (\<lambda>r. r\<lparr> r_location := Some p, r_timestamp_recepcion := Some now \<rparr>)
       (select_by_id (Some i) rows)"
  by (induction rows) (simp_all add: select_by_id_def update_location_by_id_def)

lemma others_after_update:
  "filter (\<lambda>r. r_id r \<noteq> i) (update_location_by_id p now (Some i) rows) =
     filter (\<lambda>r. r_id r \<noteq> i) rows"
  by (induction rows) (simp_all add: update_location_by_id_def)

lemma directriz_entrada_12_1:
  \<open>directriz_entrada 12 1 = ''{"accion": "entrada", "cantidad": "12", "posicion": "1"}''\<close>
  by (simp add: directriz_entrada_def string_of_int_def string_of_nat.simps)

section \<open>Facts about the example ledgers\<close>

lemma used_three_stored: "usedLocationSet (Some ''Vera'') three_stored = {1, 2, 4}"
  by (simp add: usedLocationSet_def usedLocations_def three_stored_def stored_def row42_def
      List.map_filter_def)

lemma used_five_stored: "usedLocationSet (Some ''Vera'') five_stored = {1, 2, 3, 4, 5}"
  by (simp add: usedLocationSet_def usedLocations_def five_stored_def stored_def row42_def
      List.map_filter_def)

lemma lowest_free_of_three: "Min ({1..5} - {1, 2, 4 :: int}) = 3"
proof -
  have "{1..5} - {1, 2, 4 :: int} = {3, 5}" by auto
  then show ?thesis by simp
qed

lemma three_not_full: "\<not> {1..5} \<subseteq> {1, 2, 4 :: int}"
proof
  assume sub: "{1..5} \<subseteq> {1, 2, 4 :: int}"
  have "(3::int) \<in> {1..5}" by simp
  with sub have "(3::int) \<in> {1, 2, 4}" by blast
  then show False by simp
qed

lemma five_full: "{1..5} \<subseteq> {1, 2, 3, 4, 5 :: int}"
  by auto

lemma salida_centro_example:
  "api_salida_centro (Some ''s3cret'') (request_of 2 (Some ''s3cret''))
     (busy_backend True (Some ''Vera'') three_stored) =
   (salida_response 2 10 (Some ''Vera''),
    (busy_backend True (Some ''Vera'') three_stored)
      \<lparr> state := (state (busy_backend True (Some ''Vera'') three_stored))
           \<lparr> currentOperation := Some
               \<lparr> op_type = salida_centro, position = 2, cantidad = 10,
                 productId = Str ''8410002'', almacen = Some ''Vera'',
                 phase = picking_from_storage, agvTargetPosition = 2, mode = None \<rparr> \<rparr>,
        transmitted := [(directriz, directriz_salida ''salida_centro'' 2 10)],
        reparto := [stored 1 ''Vera'' 1, stored 3 ''Vera'' 4, row42] \<rparr>)"
  by (simp add: api_salida_centro_def verifyPwd_def request_of_def busy_backend_def
      three_stored_def stored_def row42_def select_by_id_def oneOrNone_def or_num_def Let_def
      lectura_value_def delete_by_id_def)

lemma salida_particulares_example:
  "api_salida_particulares (Some ''s3cret'') (request_of 2 (Some ''s3cret''))
     (busy_backend True (Some ''Vera'') three_stored) =
   (salida_response 2 10 (Some ''Vera''),
    (busy_backend True (Some ''Vera'') three_stored)
      \<lparr> state := (state (busy_backend True (Some ''Vera'') three_stored))
           \<lparr> currentOperation := Some
               \<lparr> op_type = salida_particulares, position = 2, cantidad = 10,
                 productId = Str ''8410002'', almacen = Some ''Vera'',
                 phase = picking_from_storage, agvTargetPosition = 2, mode = None \<rparr>,
             pendingBoxes := 10 \<rparr>,
        transmitted := [(directriz, directriz_salida ''salida_particulares'' 2 10)],
        reparto := [stored 1 ''Vera'' 1, stored 3 ''Vera'' 4, row42] \<rparr>)"
  by (simp add: api_salida_particulares_def verifyPwd_def request_of_def busy_backend_def
      three_stored_def stored_def row42_def select_by_id_def oneOrNone_def or_num_def Let_def
      lectura_value_def delete_by_id_def)

lemma entrance_disconnected_example:
  "api_qr_entrada 7 (request_of 42 None) (backend_of False [row42]) =
     (\<lparr> status = 200,
        body = JsonBody
          [(''success'', JBool True), (''location'', JNum 1), (''cantidad'', JNum 12),
           (''message'', JStr ''Product assigned to location 1'')] \<rparr>,
      \<lparr> state = initial_systemState
          \<lparr> currentOperation := Some
              \<lparr> op_type = entrada, position = 1, cantidad = 12, productId = Num 42,
                almacen = Some ''Vera'', phase = picking_from_storage, agvTargetPosition = 1,
                mode = None \<rparr>,
            pendingBoxes := 12 \<rparr>,
        mqttConnected = False, transmitted = [],
        reparto = [row42\<lparr> r_location := Some 1, r_timestamp_recepcion := Some 7 \<rparr>],
        console = [LogCannotPublish ''PR2A1/acciones/directriz''] \<rparr>)"
  by (simp add: api_qr_entrada_def request_of_def backend_of_def row42_def select_by_id_def
      oneOrNone_def Let_def usedLocationSet_def usedLocations_def List.map_filter_def
      availablePosition_empty or_num_def update_location_by_id_def directriz_def
      string_of_int_def string_of_nat.simps log_def)

lemma entrance_alcoy_example:
  "api_qr_entrada 7 (request_of 7 None) (backend_of True [received 7 ''Alcoy'']) =
     (\<lparr> status = 200,
        body = JsonBody
          [(''success'', JBool True), (''location'', JNum 1), (''cantidad'', JNum 6),
           (''message'', JStr ''Product assigned to location 1'')] \<rparr>,
      \<lparr> state = initial_systemState
          \<lparr> currentOperation := Some
              \<lparr> op_type = entrada, position = 1, cantidad = 6, productId = Num 7,
                almacen = Some ''Alcoy'', phase = picking_from_storage, agvTargetPosition = 1,
                mode = None \<rparr>,
            pendingBoxes := 6 \<rparr>,
        mqttConnected = True, transmitted = [],
        reparto = [(received 7 ''Alcoy'')\<lparr> r_location := Some 1, r_timestamp_recepcion := Some 7 \<rparr>],
        console = [LogSimulation ''Alcoy''] \<rparr>)"
  by (simp add: api_qr_entrada_def request_of_def backend_of_def received_def select_by_id_def
      oneOrNone_def Let_def usedLocationSet_def usedLocations_def List.map_filter_def
      availablePosition_empty or_num_def update_location_by_id_def
      string_of_int_def string_of_nat.simps log_def string_of_text_def)

lemma salida_particulares_alcoy_example:
  "api_salida_particulares (Some ''s3cret'') (request_of 8 (Some ''s3cret''))
     (backend_of True [stored 8 ''Alcoy'' 2]) =
   (salida_response 2 10 (Some ''Alcoy''),
    \<lparr> state = initial_systemState
        \<lparr> currentOperation := Some
            \<lparr> op_type = salida_particulares, position = 2, cantidad = 10,
              productId = Str ''8410002'', almacen = Some ''Alcoy'',
              phase = picking_from_storage, agvTargetPosition = 2, mode = None \<rparr>,
          pendingBoxes := 10 \<rparr>,
      mqttConnected = True, transmitted = [], reparto = [],
      console = [LogSimulation ''Alcoy''] \<rparr>)"
  by (simp add: api_salida_particulares_def verifyPwd_def request_of_def backend_of_def
      stored_def select_by_id_def oneOrNone_def or_num_def Let_def lectura_value_def
      delete_by_id_def log_def string_of_text_def)

lemma salida_centro_alcoy_example:
  "api_salida_centro (Some ''s3cret'') (request_of 8 (Some ''s3cret''))
     (backend_of True [stored 8 ''Alcoy'' 2]) =
   (salida_response 2 10 (Some ''Alcoy''),
    \<lparr> state = initial_systemState
        \<lparr> currentOperation := Some
            \<lparr> op_type = salida_centro, position = 2, cantidad = 10,
              productId = Str ''8410002'', almacen = Some ''Alcoy'',
              phase = picking_from_storage, agvTargetPosition = 2, mode = None \<rparr> \<rparr>,
      mqttConnected = True, transmitted = [], reparto = [],
      console = [LogSimulation ''Alcoy''] \<rparr>)"
  by (simp add: api_salida_centro_def verifyPwd_def request_of_def backend_of_def
      stored_def select_by_id_def oneOrNone_def or_num_def Let_def lectura_value_def
      delete_by_id_def log_def string_of_text_def)

lemma stop_messages:
  \<open>stop_conveyor_1 = (''PR2A1/acciones/conveyor_1'', ''{"accion":"parada"}'')\<close>
  \<open>stop_conveyor_2 = (''PR2A1/acciones/conveyor_2'', ''{"accion":"parada"}'')\<close>
  \<open>stop_paletizaje modo =
     (''PR2A1/acciones/paletizaje'', ''{"accion":"parada","modo":'' @ JSON_quote modo @ ''}'')\<close>
  \<open>stop_cobot = (''PR2A1/cobot/recogida'', ''{"accion":"parada"}'')\<close>
  by (simp_all add: stop_conveyor_1_def stop_conveyor_2_def stop_paletizaje_def stop_cobot_def
      JSON_stringify_def JSON_quote_def JSON_escape_def)

lemma JSON_quote_paletizar: \<open>JSON_quote ''paletizar'' = ''"paletizar"''\<close>
  by (simp add: JSON_quote_def JSON_escape_def)

lemma entrance_empty_site_example:
  "api_qr_entrada 7 (request_of 7 None) (backend_of True [received 7 []]) =
     (\<lparr> status = 200,
        body = JsonBody
          [(''success'', JBool True), (''location'', JNum 1), (''cantidad'', JNum 6),
           (''message'', JStr ''Product assigned to location 1'')] \<rparr>,
      \<lparr> state = initial_systemState
          \<lparr> currentOperation := Some
              \<lparr> op_type = entrada, position = 1, cantidad = 6, productId = Num 7,
                almacen = Some [], phase = picking_from_storage, agvTargetPosition = 1,
                mode = None \<rparr>,
            pendingBoxes := 6 \<rparr>,
        mqttConnected = True, transmitted = [],
        reparto = [(received 7 [])\<lparr> r_location := Some 1, r_timestamp_recepcion := Some 7 \<rparr>],
        console = [LogSimulation []] \<rparr>)"
  by (simp add: api_qr_entrada_def request_of_def backend_of_def received_def select_by_id_def
      oneOrNone_def Let_def usedLocationSet_def usedLocations_def List.map_filter_def
      availablePosition_empty or_num_def update_location_by_id_def
      string_of_int_def string_of_nat.simps log_def string_of_text_def)

lemma emergency_after_empty_site_entrance:
  \<open>transmitted (handleEmergencyStop
      (snd (api_qr_entrada 7 (request_of 7 None) (backend_of True [received 7 []])))) =
     [(''PR2A1/acciones/conveyor_1'', ''{"accion":"parada"}''),
      (''PR2A1/acciones/conveyor_2'', ''{"accion":"parada"}''),
      (''PR2A1/acciones/paletizaje'', ''{"accion":"parada","modo":"paletizar"}''),
      (''PR2A1/cobot/recogida'', ''{"accion":"parada"}'')]\<close>
  by (simp add: entrance_empty_site_example)
    (simp add: handleEmergencyStop_def Let_def emergency_almacen_def emergency_modo_def
      initial_systemState_def or_str_def stop_messages JSON_quote_paletizar)

lemma emergency_disconnected_example:
  \<open>transmitted (handleEmergencyStop (backend_of False [])) = [] \<and>
   console (handleEmergencyStop (backend_of False [])) =
     [LogCannotPublish ''PR2A1/acciones/conveyor_1'',
      LogCannotPublish ''PR2A1/acciones/conveyor_2'',
      LogCannotPublish ''PR2A1/acciones/paletizaje'',
      LogCannotPublish ''PR2A1/cobot/recogida'']\<close>
  by (simp add: handleEmergencyStop_def Let_def emergency_almacen_def emergency_modo_def
      backend_of_def initial_systemState_def stop_messages)

lemma infrared_message_raises:
  "snd (on_message dec now ''PR2A1/status/infrarrojos_1'' messageStr w) =
     Some (ReferenceError ''handleInfrared1StatusChange'')"
  "snd (on_message dec now ''PR2A1/status/infrarrojos_2'' messageStr w) =
     Some (ReferenceError ''handleInfrared2StatusChange'')"
  by (simp_all add: on_message_def call_of_def declared_functions_def)

lemma unauthorized_is_rejected:
  assumes "\<not> verifyPwd ADMIN_PWD req"
  shows "api_salida_particulares ADMIN_PWD req w = (forbidden, w)"
    and "api_salida_centro ADMIN_PWD req w = (forbidden, w)"
    and "api_reset_emergency ADMIN_PWD req w = (forbidden, w)"
  using assms
  by (simp_all add: api_salida_particulares_def api_salida_centro_def api_reset_emergency_def)

lemma qr_entrada_ignores_password:
  "api_qr_entrada now (req\<lparr> body_password := pw \<rparr>) w = api_qr_entrada now req w"
  by (simp add: api_qr_entrada_def)

lemma entrance_wrong_password_example:
  "api_qr_entrada 7 (request_of 42 (Some ''wrong'')) (backend_of True [row42]) =
     (\<lparr> status = 200,
        body = JsonBody
          [(''success'', JBool True), (''location'', JNum 1), (''cantidad'', JNum 12),
           (''message'', JStr ''Product assigned to location 1'')] \<rparr>,
      \<lparr> state = initial_systemState
          \<lparr> currentOperation := Some
              \<lparr> op_type = entrada, position = 1, cantidad = 12, productId = Num 42,
                almacen = Some ''Vera'', phase = picking_from_storage, agvTargetPosition = 1,
                mode = None \<rparr>,
            pendingBoxes := 12 \<rparr>,
        mqttConnected = True,
        transmitted = [(directriz, directriz_entrada 12 1)],
        reparto = [row42\<lparr> r_location := Some 1, r_timestamp_recepcion := Some 7 \<rparr>],
        console = [] \<rparr>)"
  by (simp add: api_qr_entrada_def request_of_def backend_of_def row42_def select_by_id_def
      oneOrNone_def Let_def usedLocationSet_def usedLocations_def List.map_filter_def
      availablePosition_empty or_num_def update_location_by_id_def
      string_of_int_def string_of_nat.simps)

section \<open>The claims\<close>

text \<open>
  C1. For every entrance request whose product is found, the assigned slot is the lowest
  integer of 1..5 that is not among the locations read from the ledger for the product's
  site: the response, the operation and the ledger update all carry it. When all five are
  occupied the HTTP route answers 400 with the no-capacity error and changes neither the
  state, the ledger nor the gateway. The same holds for an entrance that arrives as a QR
  notice over MQTT, which has no response: there the no-capacity error is the line written
  to the console.
\<close>

theorem entrance_assigns_lowest_free_slot:
  "(body_id req = Some i \<and> i \<noteq> 0 \<and> select_by_id (Some i) (reparto w) = [product] \<longrightarrow>
      (let used = usedLocationSet (r_almacen product) (reparto w);
           res = fst (api_qr_entrada now req w);
           w' = snd (api_qr_entrada now req w)
       in if {1..5} \<subseteq> used
          then res = error_response 400
                 (''No available positions in warehouse '' @ string_of_text (r_almacen product)) \<and>
               state w' = state w \<and> reparto w' = reparto w \<and> transmitted w' = transmitted w
          else status res = 200 \<and>
               json_field res ''location'' = Some (JNum (Min ({1..5} - used))) \<and>
               map_option position (currentOperation (state w')) = Some (Min ({1..5} - used)) \<and>
               reparto w' = update_location_by_id (Min ({1..5} - used)) now (Some i) (reparto w))) \<and>
   (qr_parsedData qrData = Inr f \<and> (truthy_num (qr_id f) \<or> truthy_str (qr_lectura f)) \<and>
    (if truthy_num (qr_id f) then select_by_id (qr_id f) (reparto v)
     else select_by_lectura (qr_lectura f) (reparto v)) = [item] \<longrightarrow>
      (let used = usedLocationSet (r_almacen item) (reparto v);
           v' = handleQrCodeEntry t qrData v
       in if {1..5} \<subseteq> used
          then state v' = state v \<and> reparto v' = reparto v \<and> transmitted v' = transmitted v \<and>
               console v' = console v @
                 [LogError (''No available positions in warehouse '' @
                    string_of_text (r_almacen item))]
          else map_option position (currentOperation (state v')) = Some (Min ({1..5} - used)) \<and>
               reparto v' =
                 (if truthy_num (qr_id f)
                  then update_location_by_id (Min ({1..5} - used)) t (qr_id f) (reparto v)
                  else update_location_by_lectura (Min ({1..5} - used)) t (qr_lectura f)
                         (reparto v))))"
  using qr_entrada_slot [of req i w product now] handleQrCodeEntry_slot [of qrData f v item t]
  by blast

theorem entrance_assigns_lowest_free_slot_witness:
  "select_by_id (Some 42) (reparto (backend_of True three_stored)) = [row42] \<and>
   status (fst (api_qr_entrada 7 (request_of 42 None) (backend_of True three_stored))) = 200 \<and>
   json_field (fst (api_qr_entrada 7 (request_of 42 None) (backend_of True three_stored)))
     ''location'' = Some (JNum 3) \<and>
   qr_parsedData qr42 = Inr \<lparr> qr_id = Some 42, qr_cantidad = Some 12, qr_lectura = Some ''8410001'' \<rparr> \<and>
   select_by_id (Some 42) (reparto (backend_of True five_stored)) = [row42] \<and>
   state (handleQrCodeEntry 7 qr42 (backend_of True five_stored)) = initial_systemState \<and>
   reparto (handleQrCodeEntry 7 qr42 (backend_of True five_stored)) = five_stored"
proof -
  have sel3: "select_by_id (Some 42) (reparto (backend_of True three_stored)) = [row42]"
    by (simp add: select_by_id_def backend_of_def three_stored_def stored_def row42_def)
  have sel5: "select_by_id (Some 42) (reparto (backend_of True five_stored)) = [row42]"
    by (simp add: select_by_id_def backend_of_def five_stored_def stored_def row42_def)
  have qr: "qr_parsedData qr42 =
      Inr \<lparr> qr_id = Some 42, qr_cantidad = Some 12, qr_lectura = Some ''8410001'' \<rparr>"
    by (simp add: qr_parsedData_def qr42_def)
  from entrance_assigns_lowest_free_slot
    [of "request_of 42 None" 42 "backend_of True three_stored" row42 7 qr42
      "\<lparr> qr_id = Some 42, qr_cantidad = Some 12, qr_lectura = Some ''8410001'' \<rparr>"
      "backend_of True five_stored" row42 7]
    sel3 sel5 qr three_not_full five_full
  show ?thesis
    by (simp add: request_of_def Let_def used_three_stored used_five_stored lowest_free_of_three
        row42_def backend_of_def truthy_num_def)
qed

text \<open>
  C2. A message on the emergency-stop topic, whatever its text, leaves the system state as
  it was except that \<open>emergencyStop\<close> is true, \<open>currentOperation\<close> is empty and
  \<open>pendingBoxes\<close> is 0, and no exception leaves the handler. A second such message,
  again with any text, leaves the system state equal to the state after the first.
\<close>

theorem emergency_stop_clears_and_is_idempotent:
  "(let r1 = on_message dec now ''PR2A1/avisos/parada_emergencia'' payload w;
        r2 = on_message dec2 now2 ''PR2A1/avisos/parada_emergencia'' payload2 (fst r1)
    in state (fst r1) =
         (state w)\<lparr> emergencyStop := True, currentOperation := None, pendingBoxes := 0 \<rparr> \<and>
       emergencyStop (state (fst r1)) \<and>
       currentOperation (state (fst r1)) = None \<and>
       pendingBoxes (state (fst r1)) = 0 \<and>
       snd r1 = None \<and>
       state (fst r2) = state (fst r1) \<and>
       snd r2 = None)"
  by (simp add: on_message_def Let_def handleEmergencyStop_state)

text \<open>
  C3. The ledger holds one row with id 42, at "Vera", with \<^verbatim>\<open>cantidad\<close> 12 and no
  location, and no row at "Vera" has a location. Then the entrance request for id 42 answers
  200 with location 1 and cantidad 12, and the row now has location 1 and the time of the
  update as its receipt timestamp, the other rows being untouched. The directive text
  \<^verbatim>\<open>{"accion": "entrada", "cantidad": "12", "posicion": "1"}\<close> is handed to the MQTT
  client on the directive topic when the connectivity flag is true; when it is false, nothing
  is transmitted.
\<close>

theorem start_entrance_42:
  assumes \<open>body_id req = Some 42\<close>
    and \<open>select_by_id (Some 42) (reparto w) = [product]\<close>
    and \<open>r_almacen product = Some ''Vera''\<close>
    and \<open>r_cantidad product = Some 12\<close>
    and \<open>r_location product = None\<close>
    and \<open>\<forall>r\<in>set (reparto w). r_almacen r = Some ''Vera'' \<longrightarrow> r_location r = None\<close>
  shows \<open>(let res = fst (api_qr_entrada now req w);
              w' = snd (api_qr_entrada now req w)
          in status res = 200 \<and>
             json_field res ''location'' = Some (JNum 1) \<and>
             json_field res ''cantidad'' = Some (JNum 12) \<and>
             transmitted w' =
               (if mqttConnected w
                then transmitted w @
                  [(''PR2A1/acciones/directriz'',
                    ''{"accion": "entrada", "cantidad": "12", "posicion": "1"}'')]
                else transmitted w) \<and>
             select_by_id (Some 42) (reparto w') =
               [product\<lparr> r_location := Some 1, r_timestamp_recepcion := Some now \<rparr>] \<and>
             filter (\<lambda>r. r_id r \<noteq> 42) (reparto w') = filter (\<lambda>r. r_id r \<noteq> 42) (reparto w))\<close>
proof -
  from assms(3,6) have "usedLocationSet (r_almacen product) (reparto w) = {}"
    by (simp add: usedLocationSet_empty)
  then have free: "availablePosition (usedLocationSet (r_almacen product) (reparto w)) = Some 1"
    by (simp add: availablePosition_empty)
  have nz: "(42::int) \<noteq> 0" by simp
  note found = qr_entrada_found [OF assms(1) nz assms(2) free, of now]
  show ?thesis
    using assms(2,3,4)
    by (simp add: Let_def found json_field_def or_num_def select_after_update
        others_after_update directriz_entrada_12_1 directriz_def)
qed

theorem start_entrance_42_witness:
  \<open>body_id (request_of 42 None) = Some 42 \<and>
   select_by_id (Some 42) (reparto (backend_of True [stored 5 ''Alcoy'' 1, row42])) = [row42] \<and>
   reparto (backend_of True [stored 5 ''Alcoy'' 1, row42]) = [stored 5 ''Alcoy'' 1, row42] \<and>
   r_almacen (stored 5 ''Alcoy'' 1) = Some ''Alcoy'' \<and> r_location row42 = None \<and>
   status (fst (api_qr_entrada 7 (request_of 42 None)
     (backend_of True [stored 5 ''Alcoy'' 1, row42]))) = 200 \<and>
   transmitted (snd (api_qr_entrada 7 (request_of 42 None)
     (backend_of True [stored 5 ''Alcoy'' 1, row42]))) =
     [(''PR2A1/acciones/directriz'', ''{"accion": "entrada", "cantidad": "12", "posicion": "1"}'')] \<and>
   select_by_id (Some 42) (reparto (snd (api_qr_entrada 7 (request_of 42 None)
     (backend_of True [stored 5 ''Alcoy'' 1, row42])))) =
     [row42\<lparr> r_location := Some 1, r_timestamp_recepcion := Some 7 \<rparr>]\<close>
proof -
  let ?w = "backend_of True [stored 5 ''Alcoy'' 1, row42]"
  have id: "body_id (request_of 42 None) = Some 42"
    by (simp add: request_of_def)
  have sel: "select_by_id (Some 42) (reparto ?w) = [row42]"
    by (simp add: select_by_id_def backend_of_def stored_def row42_def)
  have site: "r_almacen row42 = Some ''Vera''" and boxes: "r_cantidad row42 = Some 12"
    and loc: "r_location row42 = None"
    by (simp_all add: row42_def)
  have others: "\<forall>r\<in>set (reparto ?w). r_almacen r = Some ''Vera'' \<longrightarrow> r_location r = None"
    by (simp add: backend_of_def stored_def row42_def)
  have conn: "mqttConnected ?w" "transmitted ?w = []"
    by (simp_all add: backend_of_def)
  have rows: "reparto ?w = [stored 5 ''Alcoy'' 1, row42]"
    and alcoy: "r_almacen (stored 5 ''Alcoy'' 1) = Some ''Alcoy''"
    by (simp_all add: backend_of_def stored_def)
  from start_entrance_42 [OF id sel site boxes loc others, of 7] id sel rows alcoy loc conn
  show ?thesis by (simp add: Let_def)
qed

text \<open>
  C3, the scenario with the connectivity flag false: the request succeeds and the ledger is
  updated, but no directive is published; the gateway only logs that it cannot publish.
\<close>

theorem start_entrance_42_disconnected:
  "select_by_id (Some 42) (reparto (backend_of False [row42])) = [row42] \<and>
   r_almacen row42 = Some ''Vera'' \<and> r_cantidad row42 = Some 12 \<and> r_location row42 = None \<and>
   usedLocations (Some ''Vera'') (reparto (backend_of False [row42])) = [] \<and>
   status (fst (api_qr_entrada 7 (request_of 42 None) (backend_of False [row42]))) = 200 \<and>
   transmitted (snd (api_qr_entrada 7 (request_of 42 None) (backend_of False [row42]))) = [] \<and>
   console (snd (api_qr_entrada 7 (request_of 42 None) (backend_of False [row42]))) =
     [LogCannotPublish ''PR2A1/acciones/directriz'']"
  by (simp add: entrance_disconnected_example)
    (simp add: backend_of_def row42_def select_by_id_def usedLocations_def List.map_filter_def)

text \<open>
  C4. A message on either infrared topic stores the parsed status and then calls a name
  that the file does not declare: a \<^verbatim>\<open>ReferenceError\<close> leaves the handler. An AGV status
  that reports the position the current operation targets calls another undeclared name;
  the \<^verbatim>\<open>ReferenceError\<close> is caught by the surrounding \<^verbatim>\<open>try\<close> and logged as a
  parse error.
\<close>

theorem infrared_and_agv_handlers_are_undefined:
  \<open>on_message example_decoders 0 ''PR2A1/status/infrarrojos_1'' ''1'' (backend_of True []) =
     ((backend_of True [])\<lparr> state := initial_systemState\<lparr> infrared1Status := Some 1 \<rparr> \<rparr>,
      Some (ReferenceError ''handleInfrared1StatusChange'')) \<and>
   on_message example_decoders 0 ''PR2A1/status/infrarrojos_2'' ''0'' (backend_of True []) =
     ((backend_of True [])\<lparr> state := initial_systemState\<lparr> infrared2Status := Some 0 \<rparr> \<rparr>,
      Some (ReferenceError ''handleInfrared2StatusChange'')) \<and>
   map_option agvTargetPosition (currentOperation (state (busy_backend True (Some ''Vera'') []))) =
     Some 2 \<and>
   snd (agv_try example_decoders ''{"ubicacion":2,"estado":"carry"}''
     (busy_backend True (Some ''Vera'') [])) =
     Some (ReferenceError ''handleAgvReachedPosition'') \<and>
   console (fst (on_message example_decoders 0 ''PR2A1/status/agv''
     ''{"ubicacion":2,"estado":"carry"}'' (busy_backend True (Some ''Vera'') []))) =
     [LogCaught ''Error parsing AGV status:'' (ReferenceError ''handleAgvReachedPosition'')]\<close>
  by (simp add: on_message_def agv_try_def call_of_def declared_functions_def
      example_decoders_def backend_of_def busy_backend_def operation_at_def
      initial_systemState_def parseInt_def js_whitespace_def is_digit_of_def digit_value_def
      digits_value_def log_def Let_def)

text \<open>
  C5. The entrance route does not look at the credential: with a wrong password, and
  likewise with none, it answers 200, writes the system state and updates the ledger, where
  the exit route on the same request and ledger answers 403 and changes nothing.
\<close>

theorem qr_entrada_checks_no_credential:
  "\<not> verifyPwd (Some ''s3cret'') (request_of 42 (Some ''wrong'')) \<and>
   \<not> verifyPwd (Some ''s3cret'') (request_of 42 None) \<and>
   api_qr_entrada 7 (request_of 42 None) (backend_of True [row42]) =
     api_qr_entrada 7 (request_of 42 (Some ''wrong'')) (backend_of True [row42]) \<and>
   status (fst (api_qr_entrada 7 (request_of 42 (Some ''wrong'')) (backend_of True [row42]))) =
     200 \<and>
   state (snd (api_qr_entrada 7 (request_of 42 (Some ''wrong'')) (backend_of True [row42]))) \<noteq>
     state (backend_of True [row42]) \<and>
   reparto (snd (api_qr_entrada 7 (request_of 42 (Some ''wrong'')) (backend_of True [row42]))) \<noteq>
     reparto (backend_of True [row42]) \<and>
   api_salida_particulares (Some ''s3cret'') (request_of 42 (Some ''wrong''))
     (backend_of True [row42]) = (forbidden, backend_of True [row42])"
proof -
  have bad: "\<not> verifyPwd (Some ''s3cret'') (request_of 42 (Some ''wrong''))"
    by (simp add: verifyPwd_def request_of_def)
  have boxes_before: "pendingBoxes (state (backend_of True [row42])) = 0"
    by (simp add: backend_of_def initial_systemState_def)
  have boxes_after: "pendingBoxes (state (snd (api_qr_entrada 7 (request_of 42 (Some ''wrong''))
      (backend_of True [row42])))) = 12"
    by (simp add: entrance_wrong_password_example)
  have st: "state (snd (api_qr_entrada 7 (request_of 42 (Some ''wrong''))
      (backend_of True [row42]))) \<noteq> state (backend_of True [row42])"
  proof
    assume "state (snd (api_qr_entrada 7 (request_of 42 (Some ''wrong''))
      (backend_of True [row42]))) = state (backend_of True [row42])"
    with boxes_before boxes_after show False by simp
  qed
  have rows_before: "map r_location (reparto (backend_of True [row42])) = [None]"
    by (simp add: backend_of_def row42_def)
  have rows_after: "map r_location (reparto (snd (api_qr_entrada 7
      (request_of 42 (Some ''wrong'')) (backend_of True [row42])))) = [Some 1]"
    by (simp add: entrance_wrong_password_example)
  have led: "reparto (snd (api_qr_entrada 7 (request_of 42 (Some ''wrong''))
      (backend_of True [row42]))) \<noteq> reparto (backend_of True [row42])"
  proof
    assume "reparto (snd (api_qr_entrada 7 (request_of 42 (Some ''wrong''))
      (backend_of True [row42]))) = reparto (backend_of True [row42])"
    with rows_before rows_after show False by simp
  qed
  have ok: "status (fst (api_qr_entrada 7 (request_of 42 (Some ''wrong''))
      (backend_of True [row42]))) = 200"
    by (simp add: entrance_wrong_password_example)
  have missing: "\<not> verifyPwd (Some ''s3cret'') (request_of 42 None)"
    by (simp add: verifyPwd_def request_of_def)
  have same: "api_qr_entrada 7 (request_of 42 None) (backend_of True [row42]) =
      api_qr_entrada 7 (request_of 42 (Some ''wrong'')) (backend_of True [row42])"
    using qr_entrada_ignores_password [where now = 7 and req = "request_of 42 None"
        and pw = "Some ''wrong''" and w = "backend_of True [row42]"]
    by (simp add: request_of_def)
  from bad missing same ok st led
    unauthorized_is_rejected(1) [OF bad, of "backend_of True [row42]"]
  show ?thesis by blast
qed

text \<open>
  C6. For a row whose site is not "Vera": a successful exit of either kind answers with
  \<^verbatim>\<open>success\<close> and \<^verbatim>\<open>simulation\<close> both true; a successful entrance answers with
  \<^verbatim>\<open>success\<close> true and has no \<^verbatim>\<open>simulation\<close> property. In all three cases nothing is
  handed to the MQTT client and the only line on the console is the simulation notice.
\<close>

theorem non_primary_site_is_simulated:
  assumes "r_almacen rep \<noteq> Some ''Vera''"
  shows "(select_by_id (body_id req) (reparto w) = [rep] \<and>
          status (fst (api_salida_particulares ADMIN_PWD req w)) = 200 \<longrightarrow>
            json_field (fst (api_salida_particulares ADMIN_PWD req w)) ''success'' =
              Some (JBool True) \<and>
            json_field (fst (api_salida_particulares ADMIN_PWD req w)) ''simulation'' =
              Some (JBool True) \<and>
            transmitted (snd (api_salida_particulares ADMIN_PWD req w)) = transmitted w \<and>
            console (snd (api_salida_particulares ADMIN_PWD req w)) =
              console w @ [LogSimulation (string_of_text (r_almacen rep))]) \<and>
         (select_by_id (body_id req) (reparto w) = [rep] \<and>
          status (fst (api_salida_centro ADMIN_PWD req w)) = 200 \<longrightarrow>
            json_field (fst (api_salida_centro ADMIN_PWD req w)) ''success'' =
              Some (JBool True) \<and>
            json_field (fst (api_salida_centro ADMIN_PWD req w)) ''simulation'' =
              Some (JBool True) \<and>
            transmitted (snd (api_salida_centro ADMIN_PWD req w)) = transmitted w \<and>
            console (snd (api_salida_centro ADMIN_PWD req w)) =
              console w @ [LogSimulation (string_of_text (r_almacen rep))]) \<and>
         (body_id req = Some i \<and> i \<noteq> 0 \<and> select_by_id (Some i) (reparto w) = [rep] \<and>
          status (fst (api_qr_entrada now req w)) = 200 \<longrightarrow>
            json_field (fst (api_qr_entrada now req w)) ''success'' = Some (JBool True) \<and>
            json_field (fst (api_qr_entrada now req w)) ''simulation'' = None \<and>
            transmitted (snd (api_qr_entrada now req w)) = transmitted w \<and>
            console (snd (api_qr_entrada now req w)) =
              console w @ [LogSimulation (string_of_text (r_almacen rep))])"
proof (intro conjI impI)
  assume h: "select_by_id (body_id req) (reparto w) = [rep] \<and>
    status (fst (api_salida_particulares ADMIN_PWD req w)) = 200"
  from salida_particulares_success [of ADMIN_PWD req w] h assms
  show "json_field (fst (api_salida_particulares ADMIN_PWD req w)) ''success'' =
      Some (JBool True)"
    and "json_field (fst (api_salida_particulares ADMIN_PWD req w)) ''simulation'' =
      Some (JBool True)"
    and "transmitted (snd (api_salida_particulares ADMIN_PWD req w)) = transmitted w"
    and "console (snd (api_salida_particulares ADMIN_PWD req w)) =
      console w @ [LogSimulation (string_of_text (r_almacen rep))]"
    by (auto simp add: json_field_def salida_response_def)
next
  assume h: "select_by_id (body_id req) (reparto w) = [rep] \<and>
    status (fst (api_salida_centro ADMIN_PWD req w)) = 200"
  from salida_centro_success [of ADMIN_PWD req w] h assms
  show "json_field (fst (api_salida_centro ADMIN_PWD req w)) ''success'' = Some (JBool True)"
    and "json_field (fst (api_salida_centro ADMIN_PWD req w)) ''simulation'' =
      Some (JBool True)"
    and "transmitted (snd (api_salida_centro ADMIN_PWD req w)) = transmitted w"
    and "console (snd (api_salida_centro ADMIN_PWD req w)) =
      console w @ [LogSimulation (string_of_text (r_almacen rep))]"
    by (auto simp add: json_field_def salida_response_def)
next
  assume h: "body_id req = Some i \<and> i \<noteq> 0 \<and> select_by_id (Some i) (reparto w) = [rep] \<and>
    status (fst (api_qr_entrada now req w)) = 200"
  then obtain p where p: "availablePosition (usedLocationSet (r_almacen rep) (reparto w)) = Some p"
    using qr_entrada_success [of req i w rep now] by blast
  from h have id: "body_id req = Some i" and nz: "i \<noteq> 0"
    and sel: "select_by_id (Some i) (reparto w) = [rep]"
    by simp_all
  note found = qr_entrada_found [OF id nz sel p, of now]
  from assms
  show "json_field (fst (api_qr_entrada now req w)) ''success'' = Some (JBool True)"
    and "json_field (fst (api_qr_entrada now req w)) ''simulation'' = None"
    and "transmitted (snd (api_qr_entrada now req w)) = transmitted w"
    and "console (snd (api_qr_entrada now req w)) =
      console w @ [LogSimulation (string_of_text (r_almacen rep))]"
    by (simp_all add: found json_field_def)
qed

theorem non_primary_site_is_simulated_witness:
  "r_almacen (stored 8 ''Alcoy'' 2) = Some ''Alcoy'' \<and>
   select_by_id (Some 8) (reparto (backend_of True [stored 8 ''Alcoy'' 2])) =
     [stored 8 ''Alcoy'' 2] \<and>
   status (fst (api_salida_particulares (Some ''s3cret'') (request_of 8 (Some ''s3cret''))
     (backend_of True [stored 8 ''Alcoy'' 2]))) = 200 \<and>
   json_field (fst (api_salida_particulares (Some ''s3cret'') (request_of 8 (Some ''s3cret''))
     (backend_of True [stored 8 ''Alcoy'' 2]))) ''simulation'' = Some (JBool True) \<and>
   transmitted (snd (api_salida_particulares (Some ''s3cret'') (request_of 8 (Some ''s3cret''))
     (backend_of True [stored 8 ''Alcoy'' 2]))) = [] \<and>
   status (fst (api_salida_centro (Some ''s3cret'') (request_of 8 (Some ''s3cret''))
     (backend_of True [stored 8 ''Alcoy'' 2]))) = 200 \<and>
   json_field (fst (api_salida_centro (Some ''s3cret'') (request_of 8 (Some ''s3cret''))
     (backend_of True [stored 8 ''Alcoy'' 2]))) ''simulation'' = Some (JBool True) \<and>
   transmitted (snd (api_salida_centro (Some ''s3cret'') (request_of 8 (Some ''s3cret''))
     (backend_of True [stored 8 ''Alcoy'' 2]))) = [] \<and>
   body_id (request_of 8 (Some ''s3cret'')) = Some 8 \<and>
   select_by_id (Some 7) (reparto (backend_of True [received 7 ''Alcoy''])) =
     [received 7 ''Alcoy''] \<and>
   status (fst (api_qr_entrada 7 (request_of 7 None) (backend_of True [received 7 ''Alcoy'']))) =
     200 \<and>
   transmitted (snd (api_qr_entrada 7 (request_of 7 None)
     (backend_of True [received 7 ''Alcoy'']))) = []"
proof -
  let ?w = "backend_of True [stored 8 ''Alcoy'' 2]"
  let ?req = "request_of 8 (Some ''s3cret'')"
  let ?v = "backend_of True [received 7 ''Alcoy'']"
  have site8: "r_almacen (stored 8 ''Alcoy'' 2) \<noteq> Some ''Vera''"
    and site8': "r_almacen (stored 8 ''Alcoy'' 2) = Some ''Alcoy''"
    and site7: "r_almacen (received 7 ''Alcoy'') \<noteq> Some ''Vera''"
    by (simp_all add: stored_def received_def)
  have id8: "body_id ?req = Some 8" and id7: "body_id (request_of 7 None) = Some 7"
    by (simp_all add: request_of_def)
  have sel8: "select_by_id (Some 8) (reparto ?w) = [stored 8 ''Alcoy'' 2]"
    and sel7: "select_by_id (Some 7) (reparto ?v) = [received 7 ''Alcoy'']"
    by (simp_all add: select_by_id_def backend_of_def stored_def received_def)
  have ok_p: "status (fst (api_salida_particulares (Some ''s3cret'') ?req ?w)) = 200"
    by (simp add: salida_particulares_alcoy_example salida_response_def)
  have ok_c: "status (fst (api_salida_centro (Some ''s3cret'') ?req ?w)) = 200"
    by (simp add: salida_centro_alcoy_example salida_response_def)
  have ok_e: "status (fst (api_qr_entrada 7 (request_of 7 None) ?v)) = 200"
    by (simp add: entrance_alcoy_example)
  have empty: "transmitted ?w = []" "transmitted ?v = []"
    by (simp_all add: backend_of_def)
  from non_primary_site_is_simulated [OF site8, of ?req ?w "Some ''s3cret''" 8 7]
    non_primary_site_is_simulated [OF site7, of "request_of 7 None" ?v "Some ''s3cret''" 7 7]
    site8' id8 id7 sel8 sel7 ok_p ok_c ok_e empty
  show ?thesis by simp
qed

text \<open>
  C6, a successful entrance at "Alcoy": the response of the entrance route carries no
  \<^verbatim>\<open>simulation\<close> property.
\<close>

theorem entrance_response_has_no_simulation_flag:
  "select_by_id (Some 7) (reparto (backend_of True [received 7 ''Alcoy''])) =
     [received 7 ''Alcoy''] \<and>
   r_almacen (received 7 ''Alcoy'') = Some ''Alcoy'' \<and>
   status (fst (api_qr_entrada 7 (request_of 7 None) (backend_of True [received 7 ''Alcoy'']))) =
     200 \<and>
   json_field (fst (api_qr_entrada 7 (request_of 7 None) (backend_of True [received 7 ''Alcoy''])))
     ''simulation'' = None \<and>
   json_field (fst (api_qr_entrada 7 (request_of 7 None) (backend_of True [received 7 ''Alcoy''])))
     ''simulation'' \<noteq> Some (JBool True)"
  by (simp add: entrance_alcoy_example json_field_def)
    (simp add: backend_of_def received_def select_by_id_def)

text \<open>
  C7. When no row of the ledger has the given id, and when the row's location is null,
  both exit routes return the process as it was: the system state is not written and no row
  is deleted. For a request that passed the password check the answer is 404 in the first
  case and 400 in the second.
\<close>

theorem exit_not_found_and_not_stored:
  "(select_by_id (body_id req) (reparto w) = [] \<longrightarrow>
      snd (api_salida_particulares ADMIN_PWD req w) = w \<and>
      snd (api_salida_centro ADMIN_PWD req w) = w \<and>
      (verifyPwd ADMIN_PWD req \<longrightarrow>
         fst (api_salida_particulares ADMIN_PWD req w) =
           error_response 404 ''Reparto record not found'' \<and>
         fst (api_salida_centro ADMIN_PWD req w) =
           error_response 404 ''Reparto record not found'')) \<and>
   (select_by_id (body_id req) (reparto w) = [rep] \<and> r_location rep = None \<longrightarrow>
      snd (api_salida_particulares ADMIN_PWD req w) = w \<and>
      snd (api_salida_centro ADMIN_PWD req w) = w \<and>
      (verifyPwd ADMIN_PWD req \<longrightarrow>
         fst (api_salida_particulares ADMIN_PWD req w) =
           error_response 400 ''This product is not stored in a warehouse location'' \<and>
         fst (api_salida_centro ADMIN_PWD req w) =
           error_response 400 ''This product is not stored in a warehouse location''))"
proof (cases "verifyPwd ADMIN_PWD req")
  case True
  from salida_particulares_cases(1) [OF True, of w]
    salida_particulares_cases(2) [OF True, of w rep]
    salida_centro_cases(1) [OF True, of w] salida_centro_cases(2) [OF True, of w rep]
  show ?thesis by simp
next
  case False
  from unauthorized_is_rejected(1,2) [OF False, of w] False
  show ?thesis by simp
qed

theorem exit_not_found_and_not_stored_witness:
  "verifyPwd (Some ''s3cret'') (request_of 99 (Some ''s3cret'')) \<and>
   select_by_id (Some 99) three_stored = [] \<and>
   status (fst (api_salida_particulares (Some ''s3cret'') (request_of 99 (Some ''s3cret''))
     (backend_of True three_stored))) = 404 \<and>
   snd (api_salida_centro (Some ''s3cret'') (request_of 99 (Some ''s3cret''))
     (backend_of True three_stored)) = backend_of True three_stored \<and>
   select_by_id (Some 42) three_stored = [row42] \<and> r_location row42 = None \<and>
   status (fst (api_salida_centro (Some ''s3cret'') (request_of 42 (Some ''s3cret''))
     (backend_of True three_stored))) = 400 \<and>
   snd (api_salida_particulares (Some ''s3cret'') (request_of 42 (Some ''s3cret''))
     (backend_of True three_stored)) = backend_of True three_stored"
proof -
  have auth99: "verifyPwd (Some ''s3cret'') (request_of 99 (Some ''s3cret''))"
    and auth42: "verifyPwd (Some ''s3cret'') (request_of 42 (Some ''s3cret''))"
    by (simp_all add: verifyPwd_def request_of_def)
  have sel99: "select_by_id (body_id (request_of 99 (Some ''s3cret'')))
      (reparto (backend_of True three_stored)) = []"
    and sel42: "select_by_id (body_id (request_of 42 (Some ''s3cret'')))
      (reparto (backend_of True three_stored)) = [row42]"
    by (simp_all add: select_by_id_def request_of_def backend_of_def three_stored_def stored_def
        row42_def)
  have loc: "r_location row42 = None"
    by (simp add: row42_def)
  from exit_not_found_and_not_stored
      [of "request_of 99 (Some ''s3cret'')" "backend_of True three_stored" "Some ''s3cret''" row42]
    exit_not_found_and_not_stored
      [of "request_of 42 (Some ''s3cret'')" "backend_of True three_stored" "Some ''s3cret''" row42]
    auth99 auth42 sel99 sel42 loc
  show ?thesis
    by (simp add: error_response_def request_of_def backend_of_def)
qed

text \<open>
  C8. The emergency handler takes the site of the current operation when there is one and
  its site is neither null nor the empty text, and "Vera" otherwise; the mode of the
  palletizing stop is found the same way, with "paletizar" as the default. When the site is
  "Vera" and the connectivity flag is true, exactly four stop directives are transmitted, in
  the order conveyor 1, conveyor 2, palletizing (with the mode), cobot pickup; when the flag
  is false the four publishes are refused and nothing is transmitted. For any other site
  nothing is transmitted and the console receives the simulation notice.
\<close>

theorem emergency_stop_directives:
  \<open>(let site = emergency_almacen (state w);
        modo = emergency_modo (state w);
        w' = handleEmergencyStop w
    in site =
         (case currentOperation (state w) of
            None \<Rightarrow> ''Vera''
          | Some operation \<Rightarrow>
              (case almacen operation of
                 None \<Rightarrow> ''Vera'' | Some s \<Rightarrow> if s = [] then ''Vera'' else s)) \<and>
       modo =
         (case currentOperation (state w) of
            None \<Rightarrow> ''paletizar''
          | Some operation \<Rightarrow>
              (case mode operation of
                 None \<Rightarrow> ''paletizar'' | Some m \<Rightarrow> if m = [] then ''paletizar'' else m)) \<and>
       (if site = ''Vera'' then
          (if mqttConnected w then
             transmitted w' = transmitted w @
               [(''PR2A1/acciones/conveyor_1'', ''{"accion":"parada"}''),
                (''PR2A1/acciones/conveyor_2'', ''{"accion":"parada"}''),
                (''PR2A1/acciones/paletizaje'',
                 ''{"accion":"parada","modo":'' @ JSON_quote modo @ ''}''),
                (''PR2A1/cobot/recogida'', ''{"accion":"parada"}'')] \<and>
             console w' = console w
           else
             transmitted w' = transmitted w \<and>
             console w' = console w @
               [LogCannotPublish ''PR2A1/acciones/conveyor_1'',
                LogCannotPublish ''PR2A1/acciones/conveyor_2'',
                LogCannotPublish ''PR2A1/acciones/paletizaje'',
                LogCannotPublish ''PR2A1/cobot/recogida''])
        else
          transmitted w' = transmitted w \<and> console w' = console w @ [LogSimulation site]))\<close>
proof -
  have site: "emergency_almacen (state w) =
      (case currentOperation (state w) of
         None \<Rightarrow> ''Vera''
       | Some operation \<Rightarrow>
           (case almacen operation of
              None \<Rightarrow> ''Vera'' | Some s \<Rightarrow> if s = [] then ''Vera'' else s))"
    by (simp add: emergency_almacen_def or_str_def split: option.splits)
  have modo: "emergency_modo (state w) =
      (case currentOperation (state w) of
         None \<Rightarrow> ''paletizar''
       | Some operation \<Rightarrow>
           (case mode operation of
              None \<Rightarrow> ''paletizar'' | Some m \<Rightarrow> if m = [] then ''paletizar'' else m))"
    by (simp add: emergency_modo_def or_str_def split: option.splits)
  have sent: "transmitted (handleEmergencyStop w) =
      (if emergency_almacen (state w) = ''Vera'' \<and> mqttConnected w
       then transmitted w @
         [stop_conveyor_1, stop_conveyor_2, stop_paletizaje (emergency_modo (state w)), stop_cobot]
       else transmitted w)"
    by (simp add: handleEmergencyStop_def Let_def)
  have logged: "console (handleEmergencyStop w) =
      (if emergency_almacen (state w) = ''Vera''
       then (if mqttConnected w then console w
             else console w @
               [LogCannotPublish (fst stop_conveyor_1), LogCannotPublish (fst stop_conveyor_2),
                LogCannotPublish (fst (stop_paletizaje (emergency_modo (state w)))),
                LogCannotPublish (fst stop_cobot)])
       else console w @ [LogSimulation (emergency_almacen (state w))])"
    by (simp add: handleEmergencyStop_def Let_def)
  show ?thesis
    unfolding Let_def
    apply (intro conjI)
      apply (rule site)
     apply (rule modo)
    apply (simp add: sent logged stop_messages)
    done
qed

theorem emergency_stop_directives_witness:
  \<open>emergency_almacen (state (busy_backend True (Some ''Vera'') [])) = ''Vera'' \<and>
   transmitted (handleEmergencyStop (busy_backend True (Some ''Vera'') [])) =
     [(''PR2A1/acciones/conveyor_1'', ''{"accion":"parada"}''),
      (''PR2A1/acciones/conveyor_2'', ''{"accion":"parada"}''),
      (''PR2A1/acciones/paletizaje'', ''{"accion":"parada","modo":"paletizar"}''),
      (''PR2A1/cobot/recogida'', ''{"accion":"parada"}'')] \<and>
   emergency_almacen (state (busy_backend True (Some ''Alcoy'') [])) = ''Alcoy'' \<and>
   transmitted (handleEmergencyStop (busy_backend True (Some ''Alcoy'') [])) = [] \<and>
   console (handleEmergencyStop (busy_backend True (Some ''Alcoy'') [])) =
     [LogSimulation ''Alcoy'']\<close>
proof -
  have vera: "currentOperation (state (busy_backend True (Some ''Vera'') [])) =
      Some (operation_at (Some ''Vera''))"
    and alcoy: "currentOperation (state (busy_backend True (Some ''Alcoy'') [])) =
      Some (operation_at (Some ''Alcoy''))"
    and conn: "mqttConnected (busy_backend True (Some ''Vera'') [])"
      "mqttConnected (busy_backend True (Some ''Alcoy'') [])"
    and empty: "transmitted (busy_backend True (Some ''Vera'') []) = []"
      "transmitted (busy_backend True (Some ''Alcoy'') []) = []"
      "console (busy_backend True (Some ''Alcoy'') []) = []"
    by (simp_all add: busy_backend_def)
  have op: "almacen (operation_at site) = site" "mode (operation_at site) = None" for site
    by (simp_all add: operation_at_def)
  from emergency_stop_directives [of "busy_backend True (Some ''Vera'') []"]
    emergency_stop_directives [of "busy_backend True (Some ''Alcoy'') []"]
  show ?thesis
    by (simp add: Let_def vera alcoy conn empty op JSON_quote_paletizar)
qed

text \<open>
  C8, two states. After an entrance for a row whose site is the empty text (an entrance
  that was itself simulated: nothing was transmitted), the four stop directives are
  transmitted although the operation's site is not "Vera". With no operation and the
  connectivity flag false, the site is "Vera" and nothing is transmitted.
\<close>

theorem emergency_stop_site_and_connection:
  \<open>map_option almacen (currentOperation (state
      (snd (api_qr_entrada 7 (request_of 7 None) (backend_of True [received 7 []]))))) =
     Some (Some []) \<and>
   transmitted (snd (api_qr_entrada 7 (request_of 7 None) (backend_of True [received 7 []]))) =
     [] \<and>
   transmitted (handleEmergencyStop
      (snd (api_qr_entrada 7 (request_of 7 None) (backend_of True [received 7 []])))) =
     [(''PR2A1/acciones/conveyor_1'', ''{"accion":"parada"}''),
      (''PR2A1/acciones/conveyor_2'', ''{"accion":"parada"}''),
      (''PR2A1/acciones/paletizaje'', ''{"accion":"parada","modo":"paletizar"}''),
      (''PR2A1/cobot/recogida'', ''{"accion":"parada"}'')] \<and>
   currentOperation (state (backend_of False [])) = None \<and>
   transmitted (handleEmergencyStop (backend_of False [])) = [] \<and>
   console (handleEmergencyStop (backend_of False [])) =
     [LogCannotPublish ''PR2A1/acciones/conveyor_1'',
      LogCannotPublish ''PR2A1/acciones/conveyor_2'',
      LogCannotPublish ''PR2A1/acciones/paletizaje'',
      LogCannotPublish ''PR2A1/cobot/recogida'']\<close>
proof -
  have site: "map_option almacen (currentOperation (state
      (snd (api_qr_entrada 7 (request_of 7 None) (backend_of True [received 7 []]))))) =
     Some (Some [])"
    and quiet: "transmitted
      (snd (api_qr_entrada 7 (request_of 7 None) (backend_of True [received 7 []]))) = []"
    by (simp_all add: entrance_empty_site_example)
  have idle: "currentOperation (state (backend_of False [])) = None"
    by (simp add: backend_of_def initial_systemState_def)
  from site quiet idle emergency_after_empty_site_entrance emergency_disconnected_example
  show ?thesis by simp
qed

text \<open>
  C9. The reset route leaves every field of the system state other than
  \<open>emergencyStop\<close> as it was (the operation, the pending boxes, the conveyor, infrared
  and AGV status), and the ledger and the gateway too, so no operation is restored. For a
  request that passed the password check it answers 200 and \<open>emergencyStop\<close> is false
  afterwards; otherwise it answers 403 and nothing at all is changed.
\<close>

theorem reset_emergency_changes_only_the_flag:
  "(let res = fst (api_reset_emergency ADMIN_PWD req w);
        w' = snd (api_reset_emergency ADMIN_PWD req w)
    in currentOperation (state w') = currentOperation (state w) \<and>
       pendingBoxes (state w') = pendingBoxes (state w) \<and>
       conveyor1Status (state w') = conveyor1Status (state w) \<and>
       conveyor2Status (state w') = conveyor2Status (state w) \<and>
       infrared1Status (state w') = infrared1Status (state w) \<and>
       infrared2Status (state w') = infrared2Status (state w) \<and>
       agvStatus (state w') = agvStatus (state w) \<and>
       reparto w' = reparto w \<and> transmitted w' = transmitted w \<and>
       mqttConnected w' = mqttConnected w \<and> console w' = console w \<and>
       (verifyPwd ADMIN_PWD req \<longrightarrow>
          status res = 200 \<and> emergencyStop (state w') = False \<and>
          w' = w\<lparr> state := (state w)\<lparr> emergencyStop := False \<rparr> \<rparr>) \<and>
       (\<not> verifyPwd ADMIN_PWD req \<longrightarrow> res = forbidden \<and> w' = w))"
  by (simp add: api_reset_emergency_def Let_def)

theorem reset_emergency_changes_only_the_flag_witness:
  "verifyPwd (Some ''s3cret'') (request_of 1 (Some ''s3cret'')) \<and>
   emergencyStop (state (busy_backend True (Some ''Vera'') three_stored)) \<and>
   \<not> emergencyStop (state (snd (api_reset_emergency (Some ''s3cret'')
       (request_of 1 (Some ''s3cret'')) (busy_backend True (Some ''Vera'') three_stored)))) \<and>
   currentOperation (state (snd (api_reset_emergency (Some ''s3cret'')
       (request_of 1 (Some ''s3cret'')) (busy_backend True (Some ''Vera'') three_stored)))) =
     Some (operation_at (Some ''Vera'')) \<and>
   pendingBoxes (state (snd (api_reset_emergency (Some ''s3cret'')
       (request_of 1 (Some ''s3cret'')) (busy_backend True (Some ''Vera'') three_stored)))) = 6"
proof -
  have auth: "verifyPwd (Some ''s3cret'') (request_of 1 (Some ''s3cret''))"
    by (simp add: verifyPwd_def request_of_def)
  have before: "emergencyStop (state (busy_backend True (Some ''Vera'') three_stored))"
    "currentOperation (state (busy_backend True (Some ''Vera'') three_stored)) =
       Some (operation_at (Some ''Vera''))"
    "pendingBoxes (state (busy_backend True (Some ''Vera'') three_stored)) = 6"
    by (simp_all add: busy_backend_def)
  from reset_emergency_changes_only_the_flag
    [of "Some ''s3cret''" "request_of 1 (Some ''s3cret'')"
      "busy_backend True (Some ''Vera'') three_stored"] auth before
  show ?thesis
    by (simp add: Let_def)
qed

text \<open>
  C10. A successful exit to another centre leaves \<open>pendingBoxes\<close> at its prior value
  while it sets the current operation; a successful exit to individuals sets
  \<open>pendingBoxes\<close> to the box count of the operation it creates, which is the row's
  \<^verbatim>\<open>cantidad\<close>, or 10 when that is null or zero.
\<close>

theorem exit_pendingBoxes:
  "(status (fst (api_salida_centro ADMIN_PWD req w)) = 200 \<longrightarrow>
      pendingBoxes (state (snd (api_salida_centro ADMIN_PWD req w))) = pendingBoxes (state w) \<and>
      map_option op_type (currentOperation (state (snd (api_salida_centro ADMIN_PWD req w)))) =
        Some salida_centro) \<and>
   (status (fst (api_salida_particulares ADMIN_PWD req w)) = 200 \<longrightarrow>
      (\<exists>rep. select_by_id (body_id req) (reparto w) = [rep] \<and>
         pendingBoxes (state (snd (api_salida_particulares ADMIN_PWD req w))) =
           or_num (r_cantidad rep) 10) \<and>
      map_option op_type
        (currentOperation (state (snd (api_salida_particulares ADMIN_PWD req w)))) =
        Some salida_particulares \<and>
      map_option cantidad
        (currentOperation (state (snd (api_salida_particulares ADMIN_PWD req w)))) =
        Some (pendingBoxes (state (snd (api_salida_particulares ADMIN_PWD req w)))))"
proof (intro conjI impI)
  assume ok: "status (fst (api_salida_centro ADMIN_PWD req w)) = 200"
  from salida_centro_success [OF ok]
  show "pendingBoxes (state (snd (api_salida_centro ADMIN_PWD req w))) = pendingBoxes (state w)"
    by auto
  from salida_centro_success [OF ok]
  show "map_option op_type (currentOperation (state (snd (api_salida_centro ADMIN_PWD req w)))) =
        Some salida_centro"
    by auto
next
  assume ok: "status (fst (api_salida_particulares ADMIN_PWD req w)) = 200"
  from salida_particulares_success [OF ok]
  show "\<exists>rep. select_by_id (body_id req) (reparto w) = [rep] \<and>
         pendingBoxes (state (snd (api_salida_particulares ADMIN_PWD req w))) =
           or_num (r_cantidad rep) 10"
    by auto
  from salida_particulares_success [OF ok]
  show "map_option op_type
        (currentOperation (state (snd (api_salida_particulares ADMIN_PWD req w)))) =
        Some salida_particulares"
    by auto
  from salida_particulares_success [OF ok]
  show "map_option cantidad
        (currentOperation (state (snd (api_salida_particulares ADMIN_PWD req w)))) =
        Some (pendingBoxes (state (snd (api_salida_particulares ADMIN_PWD req w))))"
    by auto
qed

theorem exit_pendingBoxes_witness:
  "status (fst (api_salida_centro (Some ''s3cret'') (request_of 2 (Some ''s3cret''))
      (busy_backend True (Some ''Vera'') three_stored))) = 200 \<and>
   pendingBoxes (state (busy_backend True (Some ''Vera'') three_stored)) = 6 \<and>
   pendingBoxes (state (snd (api_salida_centro (Some ''s3cret'') (request_of 2 (Some ''s3cret''))
      (busy_backend True (Some ''Vera'') three_stored)))) = 6 \<and>
   status (fst (api_salida_particulares (Some ''s3cret'') (request_of 2 (Some ''s3cret''))
      (busy_backend True (Some ''Vera'') three_stored))) = 200 \<and>
   pendingBoxes (state (snd (api_salida_particulares (Some ''s3cret'')
      (request_of 2 (Some ''s3cret'')) (busy_backend True (Some ''Vera'') three_stored)))) = 10"
proof -
  have ok_centro: "status (fst (api_salida_centro (Some ''s3cret'')
      (request_of 2 (Some ''s3cret'')) (busy_backend True (Some ''Vera'') three_stored))) = 200"
    by (simp add: salida_centro_example salida_response_def)
  have ok_particulares: "status (fst (api_salida_particulares (Some ''s3cret'')
      (request_of 2 (Some ''s3cret'')) (busy_backend True (Some ''Vera'') three_stored))) = 200"
    by (simp add: salida_particulares_example salida_response_def)
  have before: "pendingBoxes (state (busy_backend True (Some ''Vera'') three_stored)) = 6"
    by (simp add: busy_backend_def)
  have after: "pendingBoxes (state (snd (api_salida_particulares (Some ''s3cret'')
      (request_of 2 (Some ''s3cret'')) (busy_backend True (Some ''Vera'') three_stored)))) = 10"
    by (simp add: salida_particulares_example)
  from exit_pendingBoxes [of "Some ''s3cret''" "request_of 2 (Some ''s3cret'')"
      "busy_backend True (Some ''Vera'') three_stored"]
    ok_centro ok_particulares before after
  show ?thesis by simp
qed

end
